theory Spec2Isabelle
  imports Main "HOL-Library.Sublist"
begin

section \<open>Python values\<close>

text \<open>
  A Python \<open>str\<close> is a sequence of Unicode code points; the script prints a check mark
  (U+2713) and writes Devanagari text, so a string is a list of code points, and the
  ASCII literals of the source are written through \<open>ascii\<close>.
\<close>

type_synonym pystr = "nat list"

definition ascii :: "string \<Rightarrow> pystr" where
  "ascii s = map of_char s"

definition sq :: pystr where
  \<comment> \<open>the single quote character\<close>
  "sq = [39]"

text \<open>The objects a pipeline call can hand back; \<open>result["text"]\<close> expects a dict.\<close>

datatype pyobj =
    PyStr pystr
  | PyNone
  | PyInt int
  | PyList "pyobj list"
  | PyDict "(pystr \<times> pyobj) list"

subsection \<open>Exceptions\<close>

datatype exn_class =
    FileNotFoundError | FileExistsError | IsADirectoryError | PermissionError | OSError
  | KeyError | TypeError | ValueError | UnicodeEncodeError | RuntimeError
  | KeyboardInterrupt | SystemExit

text \<open>An exception object: its class and \<open>str(e)\<close>.\<close>

datatype exn = Exn (exn_cls: exn_class) (exn_str: pystr)

fun is_FileNotFoundError :: "exn_class \<Rightarrow> bool" where
  "is_FileNotFoundError FileNotFoundError = True"
| "is_FileNotFoundError _ = False"

fun is_OSError :: "exn_class \<Rightarrow> bool" where
  "is_OSError FileNotFoundError = True"
| "is_OSError FileExistsError = True"
| "is_OSError IsADirectoryError = True"
| "is_OSError PermissionError = True"
| "is_OSError OSError = True"
| "is_OSError _ = False"

text \<open>\<open>KeyboardInterrupt\<close> and \<open>SystemExit\<close> derive from \<open>BaseException\<close> only.\<close>

fun is_Exception :: "exn_class \<Rightarrow> bool" where
  "is_Exception KeyboardInterrupt = False"
| "is_Exception SystemExit = False"
| "is_Exception _ = True"

section \<open>The world the script runs in\<close>

record filesystem =
  files :: "pystr \<rightharpoonup> nat list"
  dirs :: "pystr set"

record pipeline_args =
  task :: pystr
  model :: pystr
  chunk_length_s :: nat
  device :: pystr

datatype arg_error =
    Ambiguous pystr
  | IgnoredExplicit pystr
  | RequiredMissing
  | Unrecognized "pystr list"

text \<open>Every call that leaves the process is recorded, in order.\<close>

datatype event =
    IsFile pystr
  | Makedirs pystr
  | Print pystr
  | CudaProbe
  | PipelineNew pipeline_args
  | PipelineCall pipeline_args pystr
  | Now
  | OpenW pystr pystr
  | WriteF pystr
  | CloseF pystr
  | ArgUsage
  | ArgError arg_error
  | ArgHelp

record world =
  fs :: filesystem
  trace :: "event list"

record datetime =
  year :: nat
  month :: nat
  day :: nat
  hour :: nat
  minute :: nat
  second :: nat

datatype fs_op = OpMkdir pystr | OpOpen pystr | OpWrite pystr

text \<open>
  What the script does not decide: the CUDA probe, the transformers pipeline, the clock,
  the refusals of the operating system (permissions, full disk), and the table of Unicode
  decimal digits that \<open>argparse\<close> consults through \<open>\d\<close>. The probe and the
  pipeline are taken not to touch the files and directories of the model, \<open>print\<close> to
  succeed on every line, paths to follow the POSIX conventions and to name a file or a
  directory as they are spelled. An exception is one of the classes below, raised where the
  code calls out; one that does not derive from \<open>Exception\<close> stands for an interrupt or a
  \<open>sys.exit\<close> inside a library.
\<close>

record env =
  cuda_is_available :: bool
  pipeline_load :: "pipeline_args \<Rightarrow> exn option"
  pipeline_run :: "pipeline_args \<Rightarrow> pystr \<Rightarrow> exn + pyobj"
  clock :: datetime
  os_fault :: "fs_op \<Rightarrow> exn option"
  isdecimal :: "nat \<Rightarrow> bool"

subsection \<open>Statements that may raise\<close>

type_synonym 'a prog = "world \<Rightarrow> (exn + 'a) \<times> world"

definition ret :: "'a \<Rightarrow> 'a prog" where
  "ret x w = (Inr x, w)"

definition raise :: "exn \<Rightarrow> 'a prog" where
  "raise e w = (Inl e, w)"

definition bind :: "'a prog \<Rightarrow> ('a \<Rightarrow> 'b prog) \<Rightarrow> 'b prog" where
  "bind m f w = (case m w of (Inl e, w') \<Rightarrow> (Inl e, w') | (Inr x, w') \<Rightarrow> f x w')"

definition log :: "event \<Rightarrow> world \<Rightarrow> world" where
  "log ev w = w\<lparr>trace := trace w @ [ev]\<rparr>"

definition print :: "pystr \<Rightarrow> unit prog" where
  "print line w = (Inr (), log (Print line) w)"

section \<open>Library calls\<close>

subsection \<open>os and os.path\<close>

definition os_path_isfile :: "pystr \<Rightarrow> bool prog" where
  "os_path_isfile p w = (Inr (files (fs w) p \<noteq> None), log (IsFile p) w)"

definition os_path_isdir :: "world \<Rightarrow> pystr \<Rightarrow> bool" where
  "os_path_isdir w p = (p \<in> dirs (fs w))"

definition os_mkdir :: "env \<Rightarrow> pystr \<Rightarrow> unit prog" where
  "os_mkdir env name w =
     (if name \<in> dirs (fs w) \<or> files (fs w) name \<noteq> None
      then (Inl (Exn FileExistsError (ascii ''[Errno 17] File exists: '' @ sq @ name @ sq)), w)
      else (case os_fault env (OpMkdir name) of
              Some e \<Rightarrow> (Inl e, w)
            | None \<Rightarrow> (Inr (), w\<lparr>fs := (fs w)\<lparr>dirs := insert name (dirs (fs w))\<rparr>\<rparr>)))"

text \<open>
  \<open>os.makedirs(name, exist_ok=True)\<close> for a name of one component:
  \<^verbatim>\<open>
    try: mkdir(name, mode)
    except OSError:
        if not exist_ok or not path.isdir(name): raise
  \<close>
\<close>

definition os_makedirs :: "env \<Rightarrow> pystr \<Rightarrow> unit prog" where
  "os_makedirs env name w =
     (case os_mkdir env name (log (Makedirs name) w) of
        (Inl e, w') \<Rightarrow>
          (if is_OSError (exn_cls e) \<and> os_path_isdir w' name then (Inr (), w') else (Inl e, w'))
      | (Inr u, w') \<Rightarrow> (Inr u, w'))"

definition startswith :: "pystr \<Rightarrow> pystr \<Rightarrow> bool" where
  "startswith s p = (take (length p) s = p)"

definition endswith :: "pystr \<Rightarrow> pystr \<Rightarrow> bool" where
  "endswith s p = (length p \<le> length s \<and> drop (length s - length p) s = p)"

definition slash :: nat where
  "slash = 47"

definition dot :: nat where
  "dot = 46"

text \<open>\<open>posixpath.join\<close> of two components.\<close>

definition os_path_join :: "pystr \<Rightarrow> pystr \<Rightarrow> pystr" where
  "os_path_join a b =
     (if startswith b [slash] then b
      else if a = [] \<or> endswith a [slash] then a @ b
      else a @ [slash] @ b)"

subsection \<open>pathlib\<close>

fun split_on :: "nat \<Rightarrow> pystr \<Rightarrow> pystr list" where
  "split_on c [] = [[]]"
| "split_on c (x # xs) =
     (if x = c then [] # split_on c xs
      else (case split_on c xs of
              [] \<Rightarrow> [[x]]
            | p # ps \<Rightarrow> (x # p) # ps))"

text \<open>The parts of a POSIX path: empty components and \<open>.\<close> are dropped.\<close>

definition path_parts :: "pystr \<Rightarrow> pystr list" where
  "path_parts p = filter (\<lambda>x. x \<noteq> [] \<and> x \<noteq> [dot]) (split_on slash p)"

definition path_name :: "pystr \<Rightarrow> pystr" where
  "path_name p = (case rev (path_parts p) of [] \<Rightarrow> [] | n # _ \<Rightarrow> n)"

text \<open>\<open>str.rfind\<close> of one character: the last index, or \<open>None\<close> for Python's \<open>-1\<close>.\<close>

fun rfind :: "nat \<Rightarrow> pystr \<Rightarrow> nat option" where
  "rfind c [] = None"
| "rfind c (x # xs) =
     (case rfind c xs of
        Some i \<Rightarrow> Some (Suc i)
      | None \<Rightarrow> (if x = c then Some 0 else None))"

text \<open>
  \<^verbatim>\<open>
    i = name.rfind('.')
    if 0 < i < len(name) - 1: return name[:i]
    else: return name
  \<close>
\<close>

definition path_stem :: "pystr \<Rightarrow> pystr" where
  "path_stem p =
     (let name = path_name p in
      case rfind dot name of
        None \<Rightarrow> name
      | Some i \<Rightarrow> (if 0 < i \<and> i + 1 < length name then take i name else name))"

subsection \<open>datetime\<close>

fun show_nat :: "nat \<Rightarrow> pystr" where
  "show_nat n = (if n < 10 then [48 + n] else show_nat (n div 10) @ [48 + n mod 10])"

declare show_nat.simps [simp del]

definition pad2 :: "nat \<Rightarrow> pystr" where
  \<comment> \<open>\<open>%m\<close>, \<open>%d\<close>, \<open>%H\<close>, \<open>%M\<close>, \<open>%S\<close>: two digits, zero padded\<close>
  "pad2 n = (if n < 10 then 48 # show_nat n else show_nat n)"

definition strftime :: "datetime \<Rightarrow> pystr" where
  \<comment> \<open>the format \<open>%Y%m%d-%H%M%S\<close>; \<open>%Y\<close> is the year in decimal, as the C library prints it\<close>
  "strftime t =
     show_nat (year t) @ pad2 (month t) @ pad2 (day t) @ [45]
       @ pad2 (hour t) @ pad2 (minute t) @ pad2 (second t)"

definition datetime_now :: "env \<Rightarrow> datetime prog" where
  "datetime_now env w = (Inr (clock env), log Now w)"

subsection \<open>torch and transformers\<close>

definition torch_cuda_is_available :: "env \<Rightarrow> bool prog" where
  "torch_cuda_is_available env w = (Inr (cuda_is_available env), log CudaProbe w)"

definition pipeline :: "env \<Rightarrow> pipeline_args \<Rightarrow> pipeline_args prog" where
  "pipeline env args w =
     (case pipeline_load env args of
        Some e \<Rightarrow> (Inl e, log (PipelineNew args) w)
      | None \<Rightarrow> (Inr args, log (PipelineNew args) w))"

definition pipe_call :: "env \<Rightarrow> pipeline_args \<Rightarrow> pystr \<Rightarrow> pyobj prog" where
  "pipe_call env pipe path w = (pipeline_run env pipe path, log (PipelineCall pipe path) w)"

text \<open>\<open>obj[key]\<close> for a string key.\<close>

definition subscript :: "pyobj \<Rightarrow> pystr \<Rightarrow> exn + pyobj" where
  "subscript obj key =
     (case obj of
        PyDict kvs \<Rightarrow>
          (case map_of kvs key of
             Some v \<Rightarrow> Inr v
           | None \<Rightarrow> Inl (Exn KeyError (sq @ key @ sq)))
      | PyList _ \<Rightarrow> Inl (Exn TypeError (ascii ''list indices must be integers or slices, not str''))
      | PyStr _ \<Rightarrow>
          Inl (Exn TypeError (ascii ''string indices must be integers, not '' @ sq @ ascii ''str'' @ sq))
      | PyNone \<Rightarrow>
          Inl (Exn TypeError (sq @ ascii ''NoneType'' @ sq @ ascii '' object is not subscriptable''))
      | PyInt _ \<Rightarrow>
          Inl (Exn TypeError (sq @ ascii ''int'' @ sq @ ascii '' object is not subscriptable'')))"

definition getitem :: "pyobj \<Rightarrow> pystr \<Rightarrow> pyobj prog" where
  "getitem obj key w = (subscript obj key, w)"

subsection \<open>Text files\<close>

text \<open>UTF-8 of one code point; surrogates and values beyond U+10FFFF have none.\<close>

definition utf8_char :: "nat \<Rightarrow> nat list option" where
  "utf8_char c =
     (if c < 128 then Some [c]
      else if c < 2048 then Some [192 + c div 64, 128 + c mod 64]
      else if 55296 \<le> c \<and> c \<le> 57343 then None
      else if c < 65536 then Some [224 + c div 4096, 128 + (c div 64) mod 64, 128 + c mod 64]
      else if c < 1114112 then
        Some [240 + c div 262144, 128 + (c div 4096) mod 64, 128 + (c div 64) mod 64, 128 + c mod 64]
      else None)"

fun utf8_encode :: "pystr \<Rightarrow> nat list option" where
  "utf8_encode [] = Some []"
| "utf8_encode (c # cs) =
     (case utf8_char c of
        None \<Rightarrow> None
      | Some bs \<Rightarrow> (case utf8_encode cs of None \<Rightarrow> None | Some rest \<Rightarrow> Some (bs @ rest)))"

text \<open>\<open>open(path, "w", encoding="utf-8")\<close> creates the file or truncates it.\<close>

definition open_w :: "env \<Rightarrow> pystr \<Rightarrow> pystr \<Rightarrow> pystr prog" where
  "open_w env path encoding w =
     (let w1 = log (OpenW path encoding) w in
      if os_path_isdir w1 path
      then (Inl (Exn IsADirectoryError (ascii ''[Errno 21] Is a directory: '' @ sq @ path @ sq)), w1)
      else (case os_fault env (OpOpen path) of
              Some e \<Rightarrow> (Inl e, w1)
            | None \<Rightarrow> (Inr path, w1\<lparr>fs := (fs w1)\<lparr>files := (files (fs w1))(path \<mapsto> [])\<rparr>\<rparr>)))"

text \<open>
  \<open>f.write(obj)\<close> on a file opened as above: the argument must be a \<open>str\<close>; it is
  encoded, then handed to the operating system; when that refuses, the file stays as
  \<open>open\<close> left it.
\<close>

fun type_name :: "pyobj \<Rightarrow> pystr" where
  "type_name (PyStr _) = ascii ''str''"
| "type_name PyNone = ascii ''NoneType''"
| "type_name (PyInt _) = ascii ''int''"
| "type_name (PyList _) = ascii ''list''"
| "type_name (PyDict _) = ascii ''dict''"

definition write_bytes :: "pyobj \<Rightarrow> exn + nat list" where
  "write_bytes obj =
     (case obj of
        PyStr s \<Rightarrow>
          (case utf8_encode s of
             None \<Rightarrow>
               Inl (Exn UnicodeEncodeError
                     (sq @ ascii ''utf-8'' @ sq @ ascii '' codec can'' @ sq @ ascii ''t encode character''))
           | Some bytes \<Rightarrow> Inr bytes)
      | _ \<Rightarrow> Inl (Exn TypeError (ascii ''write() argument must be str, not '' @ type_name obj)))"

definition file_write :: "env \<Rightarrow> pystr \<Rightarrow> pyobj \<Rightarrow> unit prog" where
  "file_write env f obj w =
     (let w1 = log (WriteF f) w in
      case write_bytes obj of
        Inl e \<Rightarrow> (Inl e, w1)
      | Inr bytes \<Rightarrow>
          (case os_fault env (OpWrite f) of
             Some e \<Rightarrow> (Inl e, w1)
           | None \<Rightarrow> (Inr (), w1\<lparr>fs := (fs w1)\<lparr>files := (files (fs w1))(f \<mapsto> bytes)\<rparr>\<rparr>)))"

text \<open>The \<open>with\<close> statement: the file is closed on the way out, whatever the body did.\<close>

definition with_open :: "pystr prog \<Rightarrow> (pystr \<Rightarrow> 'a prog) \<Rightarrow> 'a prog" where
  "with_open opn body w =
     (case opn w of
        (Inl e, w1) \<Rightarrow> (Inl e, w1)
      | (Inr f, w1) \<Rightarrow> (case body f w1 of (r, w2) \<Rightarrow> (r, log (CloseF f) w2)))"

section \<open>The script\<close>

definition process_hindi_audio :: "env \<Rightarrow> pystr \<Rightarrow> pystr prog" where
  "process_hindi_audio env audio_file_path =
     bind (os_path_isfile audio_file_path) (\<lambda>is_file.
     if \<not> is_file
     then raise (Exn FileNotFoundError
                  (ascii ''The file '' @ sq @ audio_file_path @ sq @ ascii '' does not exist.''))
     else
     bind (os_makedirs env (ascii ''transcribed'')) (\<lambda>_.
     bind (print (ascii ''Transcription folder '' @ sq @ ascii ''transcribed'' @ sq @ ascii '' is ready.'')) (\<lambda>_.
     bind (print (ascii ''Loading model vasista22/whisper-hindi-large-v2...'')) (\<lambda>_.
     bind (torch_cuda_is_available env) (\<lambda>cuda.
     let device = (if cuda then ascii ''cuda'' else ascii ''cpu'') in
     bind (print (ascii ''Using device: '' @ device)) (\<lambda>_.
     bind (pipeline env \<lparr>task = ascii ''automatic-speech-recognition'',
                          model = ascii ''vasista22/whisper-hindi-large-v2'',
                          chunk_length_s = 30,
                          device = device\<rparr>) (\<lambda>pipe.
     bind (print (ascii ''Transcribing '' @ audio_file_path @ ascii ''...'')) (\<lambda>_.
     bind (pipe_call env pipe audio_file_path) (\<lambda>result.
     bind (getitem result (ascii ''text'')) (\<lambda>transcription.
     bind (datetime_now env) (\<lambda>now.
     let timestamp = strftime now;
         audio_filename = path_stem audio_file_path;
         output_filename = audio_filename @ ascii ''-'' @ timestamp @ ascii ''.txt'';
         output_path = os_path_join (ascii ''transcribed'') output_filename in
     bind (with_open (open_w env output_path (ascii ''utf-8''))
             (\<lambda>f. file_write env f transcription)) (\<lambda>_.
     ret output_path))))))))))))"

subsection \<open>argparse\<close>

text \<open>
  \<open>ArgumentParser.parse_args\<close> for the parser that \<open>main\<close> builds: the options
  \<open>-h\<close> and \<open>--help\<close> that every parser has, and the one positional \<open>audio_file\<close>.
  An error prints the usage line and the message and exits with status 2; the help action
  prints the help text and exits with status 0.
\<close>

datatype arg_class =
    Positional
  | UnknownOpt
  | AmbiguousOpt
  | HelpOpt pystr "pystr option" "pystr option"

datatype parse_result =
    Parsed pystr
  | ParseHelp
  | ParseError arg_error

definition dash :: nat where
  "dash = 45"

definition equals :: nat where
  "equals = 61"

definition option_strings :: "pystr list" where
  "option_strings = [ascii ''-h'', ascii ''--help'']"

text \<open>\<open>s.partition('=')\<close>: the part before, whether the separator was found, the part after.\<close>

definition partition_eq :: "pystr \<Rightarrow> pystr \<times> bool \<times> pystr" where
  "partition_eq s =
     (let rest = dropWhile (\<lambda>c. c \<noteq> equals) s
      in (takeWhile (\<lambda>c. c \<noteq> equals) s, rest \<noteq> [], tl rest))"

text \<open>The pattern \<^verbatim>\<open>^-\d+$|^-\d*\.\d+$\<close>; \<open>$\<close> also matches before a final newline.\<close>

definition neg_number_body :: "(nat \<Rightarrow> bool) \<Rightarrow> pystr \<Rightarrow> bool" where
  "neg_number_body isd b =
     (case b of
        [] \<Rightarrow> False
      | c # r \<Rightarrow>
          c = dash \<and>
          ((r \<noteq> [] \<and> list_all isd r) \<or>
           (case dropWhile isd r of
              [] \<Rightarrow> False
            | d # es \<Rightarrow> d = dot \<and> es \<noteq> [] \<and> list_all isd es)))"

definition neg_number :: "(nat \<Rightarrow> bool) \<Rightarrow> pystr \<Rightarrow> bool" where
  "neg_number isd s = neg_number_body isd (if s \<noteq> [] \<and> last s = 10 then butlast s else s)"

definition get_option_tuples :: "pystr \<Rightarrow> arg_class list" where
  "get_option_tuples s =
     (if s ! 1 = dash then
        (case partition_eq s of (pre, found, ex) \<Rightarrow>
           concat (map (\<lambda>opt. if startswith opt pre
                               then [HelpOpt opt (if found then Some [equals] else None)
                                                 (if found then Some ex else None)]
                               else [])
                       option_strings))
      else
        concat (map (\<lambda>opt. if opt = take 2 s then [HelpOpt opt (Some []) (Some (drop 2 s))]
                            else if startswith opt s then [HelpOpt opt None None]
                            else [])
                    option_strings))"

definition parse_optional :: "(nat \<Rightarrow> bool) \<Rightarrow> pystr \<Rightarrow> arg_class" where
  "parse_optional isd s =
     (if s = [] then Positional
      else if hd s \<noteq> dash then Positional
      else if s \<in> set option_strings then HelpOpt s None None
      else if length s = 1 then Positional
      else (case partition_eq s of (opt, found, ex) \<Rightarrow>
        if found \<and> opt \<in> set option_strings then HelpOpt opt (Some [equals]) (Some ex)
        else (case get_option_tuples s of
                [t] \<Rightarrow> t
              | _ # _ # _ \<Rightarrow> AmbiguousOpt
              | [] \<Rightarrow>
                  if neg_number isd s then Positional
                  else if 32 \<in> set s then Positional
                  else UnknownOpt)))"

text \<open>
  The loop of \<open>consume_optional\<close> for the help action, which takes no argument: a
  single-dash option string spells further one-letter options in its tail. \<open>None\<close>: the
  help action runs; otherwise the error raised.
\<close>

function consume_help :: "pystr \<Rightarrow> pystr option \<Rightarrow> pystr option \<Rightarrow> arg_error option" where
  "consume_help opt sep None = None"
| "consume_help opt sep (Some ex) =
     (if opt ! 1 \<noteq> dash \<and> ex \<noteq> [] then
        (if (sep \<noteq> None \<and> sep \<noteq> Some []) \<or> hd ex = dash then Some (IgnoredExplicit ex)
         else if [dash, hd ex] \<in> set option_strings then
           (if tl ex = [] then consume_help [dash, hd ex] None None
            else if hd (tl ex) = equals then consume_help [dash, hd ex] (Some [equals]) (Some (tl (tl ex)))
            else consume_help [dash, hd ex] (Some []) (Some (tl ex)))
         else None)
      else Some (IgnoredExplicit ex))"
  by pat_completeness auto
termination
  by (relation "measure (\<lambda>(opt, sep, ex). case ex of None \<Rightarrow> 0 | Some e \<Rightarrow> Suc (length e))")
     (auto simp: neq_Nil_conv)

definition parse_done :: "pystr \<Rightarrow> pystr list \<Rightarrow> parse_result" where
  "parse_done value extras = (if extras = [] then Parsed value else ParseError (Unrecognized extras))"

text \<open>
  After the last option string: the positional takes the first argument left, together
  with a \<open>--\<close> beside it, which is dropped from its value; the rest is unrecognized.
\<close>

definition parse_finish :: "pystr option \<Rightarrow> pystr list \<Rightarrow> pystr list \<Rightarrow> parse_result" where
  "parse_finish pos extras rest =
     (case pos of
        Some p \<Rightarrow> parse_done p (extras @ rest)
      | None \<Rightarrow>
          (case rest of
             [] \<Rightarrow> ParseError RequiredMissing
           | s # r \<Rightarrow>
               if s = ascii ''--'' then
                 (case r of
                    [] \<Rightarrow> ParseError RequiredMissing
                  | x # r' \<Rightarrow> parse_done x (extras @ r'))
               else
                 (case r of
                    [] \<Rightarrow> parse_done s extras
                  | d # r' \<Rightarrow> if d = ascii ''--'' then parse_done s (extras @ r')
                              else parse_done s (extras @ r))))"

definition before_dashdash :: "pystr list \<Rightarrow> pystr list" where
  "before_dashdash args = takeWhile (\<lambda>s. s \<noteq> ascii ''--'') args"

definition has_option :: "(nat \<Rightarrow> bool) \<Rightarrow> pystr list \<Rightarrow> bool" where
  "has_option isd args = list_ex (\<lambda>s. parse_optional isd s \<noteq> Positional) (before_dashdash args)"

fun parse_loop :: "(nat \<Rightarrow> bool) \<Rightarrow> pystr option \<Rightarrow> pystr list \<Rightarrow> pystr list \<Rightarrow> parse_result" where
  "parse_loop isd pos extras [] = parse_finish pos extras []"
| "parse_loop isd pos extras (s # rest) =
     (if \<not> has_option isd (s # rest) then parse_finish pos extras (s # rest)
      else (case parse_optional isd s of
              Positional \<Rightarrow>
                (case pos of
                   None \<Rightarrow> parse_loop isd (Some s) extras rest
                 | Some _ \<Rightarrow> parse_loop isd pos (extras @ [s]) rest)
            | UnknownOpt \<Rightarrow> parse_loop isd pos (extras @ [s]) rest
            | AmbiguousOpt \<Rightarrow> ParseError (Ambiguous s)
            | HelpOpt opt sep ex \<Rightarrow>
                (case consume_help opt sep ex of
                   None \<Rightarrow> ParseHelp
                 | Some e \<Rightarrow> ParseError e)))"

text \<open>
  \<open>parse_args\<close> first classifies every argument before \<open>--\<close>, and an ambiguous
  abbreviation is an error there, before any action is taken; then it runs the loop.
\<close>

definition parse_args :: "(nat \<Rightarrow> bool) \<Rightarrow> pystr list \<Rightarrow> parse_result" where
  "parse_args isd argv =
     (case find (\<lambda>s. parse_optional isd s = AmbiguousOpt) (before_dashdash argv) of
        Some s \<Rightarrow> ParseError (Ambiguous s)
      | None \<Rightarrow> parse_loop isd None [] argv)"

subsection \<open>main\<close>

text \<open>
  How \<open>main\<close> ends: it returns (the interpreter then exits with status 0), it calls
  \<open>sys.exit\<close>, or an exception that no handler takes leaves it.
\<close>

datatype outcome = Returned | SysExit int | Uncaught exn

fun exit_code :: "outcome \<Rightarrow> int option" where
  "exit_code Returned = Some 0"
| "exit_code (SysExit n) = Some n"
| "exit_code (Uncaught e) = None"

definition check_mark :: nat where
  "check_mark = 10003"

definition main :: "env \<Rightarrow> pystr list \<Rightarrow> world \<Rightarrow> outcome \<times> world" where
  "main env argv w =
     (case parse_args (isdecimal env) argv of
        ParseHelp \<Rightarrow> (SysExit 0, log ArgHelp w)
      | ParseError e \<Rightarrow> (SysExit 2, log (ArgError e) (log ArgUsage w))
      | Parsed audio_file \<Rightarrow>
          (case process_hindi_audio env audio_file w of
             (Inr output_path, w1) \<Rightarrow>
               (Returned, log (Print (check_mark # ascii '' Transcription saved to: '' @ output_path)) w1)
           | (Inl e, w1) \<Rightarrow>
               if is_FileNotFoundError (exn_cls e)
               then (SysExit 1, log (Print (ascii ''Error: '' @ exn_str e)) w1)
               else if is_Exception (exn_cls e)
               then (SysExit 1, log (Print (ascii ''An error occurred during transcription: '' @ exn_str e)) w1)
               else (Uncaught e, w1)))"

section \<open>Vocabulary of the statements\<close>

text \<open>The events that one run of \<open>main\<close> adds to the trace.\<close>

definition run_events :: "env \<Rightarrow> pystr list \<Rightarrow> world \<Rightarrow> event list" where
  "run_events env argv w = drop (length (trace w)) (trace (snd (main env argv w)))"

text \<open>The device, the pipeline arguments and the output path, as the specification words them.\<close>

definition selected_device :: "env \<Rightarrow> pystr" where
  "selected_device env = (if cuda_is_available env then ascii ''cuda'' else ascii ''cpu'')"

definition asr_args :: "env \<Rightarrow> pipeline_args" where
  "asr_args env = \<lparr>task = ascii ''automatic-speech-recognition'',
                   model = ascii ''vasista22/whisper-hindi-large-v2'',
                   chunk_length_s = 30,
                   device = selected_device env\<rparr>"

definition out_path :: "env \<Rightarrow> pystr \<Rightarrow> pystr" where
  "out_path env p = ascii ''transcribed/'' @ path_stem p @ ascii ''-'' @ strftime (clock env) @ ascii ''.txt''"

text \<open>The calls of a run that goes all the way, in order.\<close>

definition steps :: "env \<Rightarrow> pystr \<Rightarrow> event list" where
  "steps env p =
     [IsFile p,
      Makedirs (ascii ''transcribed''),
      Print (ascii ''Transcription folder '' @ sq @ ascii ''transcribed'' @ sq @ ascii '' is ready.''),
      Print (ascii ''Loading model vasista22/whisper-hindi-large-v2...''),
      CudaProbe,
      Print (ascii ''Using device: '' @ selected_device env),
      PipelineNew (asr_args env),
      Print (ascii ''Transcribing '' @ p @ ascii ''...''),
      PipelineCall (asr_args env) p,
      Now,
      OpenW (out_path env p) (ascii ''utf-8''),
      WriteF (out_path env p),
      CloseF (out_path env p)]"

text \<open>Whether \<open>os.makedirs(name, exist_ok=True)\<close> raises, read off the file system.\<close>

definition mkdir_error :: "env \<Rightarrow> filesystem \<Rightarrow> pystr \<Rightarrow> exn option" where
  "mkdir_error env fsys name =
     (if name \<in> dirs fsys then None
      else if files fsys name \<noteq> None
      then Some (Exn FileExistsError (ascii ''[Errno 17] File exists: '' @ sq @ name @ sq))
      else os_fault env (OpMkdir name))"

text \<open>
  Closed forms of the writing step and of \<open>process_hindi_audio\<close>; both are proved equal
  to the code below (\<open>write_stage\<close>, \<open>process_hindi_audio_summary\<close>).
\<close>

definition write_summary :: "env \<Rightarrow> pystr \<Rightarrow> pyobj \<Rightarrow> world \<Rightarrow> (exn + pystr) \<times> world" where
  "write_summary env out obj w =
     (if out \<in> dirs (fs w)
      then (Inl (Exn IsADirectoryError (ascii ''[Errno 21] Is a directory: '' @ sq @ out @ sq)),
            w\<lparr>trace := trace w @ [OpenW out (ascii ''utf-8'')]\<rparr>)
      else (case os_fault env (OpOpen out) of
              Some e \<Rightarrow> (Inl e, w\<lparr>trace := trace w @ [OpenW out (ascii ''utf-8'')]\<rparr>)
            | None \<Rightarrow>
               (case write_bytes obj of
                  Inl e \<Rightarrow> (Inl e, w\<lparr>fs := (fs w)\<lparr>files := (files (fs w))(out \<mapsto> [])\<rparr>,
                                      trace := trace w @ [OpenW out (ascii ''utf-8''), WriteF out, CloseF out]\<rparr>)
                | Inr bytes \<Rightarrow>
                   (case os_fault env (OpWrite out) of
                      Some e \<Rightarrow> (Inl e, w\<lparr>fs := (fs w)\<lparr>files := (files (fs w))(out \<mapsto> [])\<rparr>,
                                          trace := trace w @ [OpenW out (ascii ''utf-8''), WriteF out, CloseF out]\<rparr>)
                    | None \<Rightarrow> (Inr out, w\<lparr>fs := (fs w)\<lparr>files := (files (fs w))(out \<mapsto> bytes)\<rparr>,
                                        trace := trace w @ [OpenW out (ascii ''utf-8''), WriteF out, CloseF out]\<rparr>)))))"

definition run_summary :: "env \<Rightarrow> pystr \<Rightarrow> world \<Rightarrow> (exn + pystr) \<times> world" where
  "run_summary env p w =
     (if files (fs w) p = None
      then (Inl (Exn FileNotFoundError (ascii ''The file '' @ sq @ p @ sq @ ascii '' does not exist.'')),
            w\<lparr>trace := trace w @ take 1 (steps env p)\<rparr>)
      else (case mkdir_error env (fs w) (ascii ''transcribed'') of
              Some e \<Rightarrow> (Inl e, w\<lparr>trace := trace w @ take 2 (steps env p)\<rparr>)
            | None \<Rightarrow>
               (let w1 = w\<lparr>fs := (fs w)\<lparr>dirs := insert (ascii ''transcribed'') (dirs (fs w))\<rparr>\<rparr> in
                case pipeline_load env (asr_args env) of
                  Some e \<Rightarrow> (Inl e, w1\<lparr>trace := trace w @ take 7 (steps env p)\<rparr>)
                | None \<Rightarrow>
                   (case pipeline_run env (asr_args env) p of
                      Inl e \<Rightarrow> (Inl e, w1\<lparr>trace := trace w @ take 9 (steps env p)\<rparr>)
                    | Inr result \<Rightarrow>
                       (case subscript result (ascii ''text'') of
                          Inl e \<Rightarrow> (Inl e, w1\<lparr>trace := trace w @ take 9 (steps env p)\<rparr>)
                        | Inr obj \<Rightarrow>
                            write_summary env (out_path env p) obj
                              (w1\<lparr>trace := trace w @ take 10 (steps env p)\<rparr>))))))"

text \<open>Kinds of events.\<close>

definition is_pipeline_new :: "event \<Rightarrow> bool" where
  "is_pipeline_new ev = (case ev of PipelineNew _ \<Rightarrow> True | _ \<Rightarrow> False)"

definition is_pipeline_call :: "event \<Rightarrow> bool" where
  "is_pipeline_call ev = (case ev of PipelineCall _ _ \<Rightarrow> True | _ \<Rightarrow> False)"

definition is_print :: "event \<Rightarrow> bool" where
  "is_print ev = (case ev of Print _ \<Rightarrow> True | _ \<Rightarrow> False)"

text \<open>What \<open>main\<close> prints once \<open>process_hindi_audio\<close> has returned or raised.\<close>

definition report :: "exn + pystr \<Rightarrow> event list" where
  "report r =
     (case r of
        Inr out \<Rightarrow> [Print (check_mark # ascii '' Transcription saved to: '' @ out)]
      | Inl e \<Rightarrow>
          if is_FileNotFoundError (exn_cls e) then [Print (ascii ''Error: '' @ exn_str e)]
          else if is_Exception (exn_cls e)
          then [Print (ascii ''An error occurred during transcription: '' @ exn_str e)]
          else [])"




text \<open>The calls of a complete run without the lines printed in between.\<close>

definition call_order :: "env \<Rightarrow> pystr \<Rightarrow> event list" where
  "call_order env p =
     [IsFile p,
      Makedirs (ascii ''transcribed''),
      CudaProbe,
      PipelineNew (asr_args env),
      PipelineCall (asr_args env) p,
      Now,
      OpenW (out_path env p) (ascii ''utf-8''),
      WriteF (out_path env p),
      CloseF (out_path env p)]"

text \<open>Arguments that do not begin with a dash, and arguments that spell the help option.\<close>

definition plain :: "pystr \<Rightarrow> bool" where
  "plain s = (s = [] \<or> hd s \<noteq> dash)"

definition is_help_option :: "(nat \<Rightarrow> bool) \<Rightarrow> pystr \<Rightarrow> bool" where
  "is_help_option isd s = (case parse_optional isd s of HelpOpt _ _ _ \<Rightarrow> True | _ \<Rightarrow> False)"

subsection \<open>The scenarios of the specification\<close>

definition namaste_duniya :: pystr where
  \<comment> \<open>the Devanagari text of the specification's scenario, as code points\<close>
  "namaste_duniya = [2344, 2350, 2360, 2381, 2340, 2375, 32, 2342, 2369, 2344, 2367, 2351, 2366]"

definition text_result :: "pyobj \<Rightarrow> exn + pyobj" where
  "text_result v = Inr (PyDict [(ascii ''text'', v)])"

definition env_with :: "exn option \<Rightarrow> (exn + pyobj) \<Rightarrow> env" where
  \<comment> \<open>no CUDA, the clock at 2024-03-01 10:15:30, an operating system that refuses nothing\<close>
  "env_with load result =
     \<lparr>cuda_is_available = False,
      pipeline_load = (\<lambda>_. load),
      pipeline_run = (\<lambda>_ _. result),
      clock = \<lparr>year = 2024, month = 3, day = 1, hour = 10, minute = 15, second = 30\<rparr>,
      os_fault = (\<lambda>_. None),
      isdecimal = (\<lambda>c. 48 \<le> c \<and> c \<le> 57)\<rparr>"

definition world_with :: "pystr set \<Rightarrow> world" where
  \<comment> \<open>a working directory that holds \<open>speech.wav\<close> and the given directories\<close>
  "world_with ds = \<lparr>fs = \<lparr>files = [ascii ''speech.wav'' \<mapsto> [82, 73, 70, 70]], dirs = ds\<rparr>, trace = []\<rparr>"

section \<open>The code in closed form\<close>

subsection \<open>Paths\<close>

text \<open>The stem of a path holds no slash, so \<open>os.path.join\<close> puts the file under \<open>transcribed/\<close>.\<close>

lemma split_on_no_sep: "x \<in> set (split_on c s) \<Longrightarrow> c \<notin> set x"
  by (induction s arbitrary: x) (auto split: if_splits list.splits)

lemma path_name_no_slash: "slash \<notin> set (path_name p)"
proof (cases "rev (path_parts p)")
  case Nil
  then show ?thesis by (simp add: path_name_def)
next
  case (Cons n ns)
  then have "n \<in> set (path_parts p)"
    by (metis list.set_intros(1) set_rev)
  then have "n \<in> set (split_on slash p)" by (simp add: path_parts_def)
  then show ?thesis using Cons by (simp add: path_name_def split_on_no_sep)
qed

lemma path_stem_no_slash: "slash \<notin> set (path_stem p)"
  using path_name_no_slash [of p]
  by (auto simp: path_stem_def Let_def split: option.splits dest: in_set_takeD)

lemma join_out:
  "os_path_join (ascii ''transcribed'') (path_stem p @ ascii ''-'' @ ts @ ascii ''.txt'') =
     ascii ''transcribed/'' @ path_stem p @ ascii ''-'' @ ts @ ascii ''.txt''"
proof -
  have "\<not> startswith (path_stem p @ ascii ''-'' @ ts @ ascii ''.txt'') [slash]"
    using path_stem_no_slash [of p]
    by (cases "path_stem p") (auto simp: startswith_def ascii_def slash_def)
  then show ?thesis
    by (simp add: os_path_join_def endswith_def ascii_def slash_def)
qed

lemma out_path_not_transcribed: "out_path env p \<noteq> ascii ''transcribed''"
  by (simp add: out_path_def ascii_def)

subsection \<open>Statement by statement\<close>

text \<open>Each statement of \<open>process_hindi_audio\<close> followed by the rest of the function.\<close>

lemma os_makedirs_eq:
  "os_makedirs env name w =
     (case mkdir_error env (fs w) name of
        Some e \<Rightarrow> (Inl e, w\<lparr>trace := trace w @ [Makedirs name]\<rparr>)
      | None \<Rightarrow> (Inr (), w\<lparr>fs := (fs w)\<lparr>dirs := insert name (dirs (fs w))\<rparr>,
                          trace := trace w @ [Makedirs name]\<rparr>))"
  by (auto simp: os_makedirs_def os_mkdir_def os_path_isdir_def log_def mkdir_error_def insert_absorb
      split: option.splits)

lemma write_stage:
  "bind (with_open (open_w env out (ascii ''utf-8'')) (\<lambda>f. file_write env f obj)) (\<lambda>_. ret out) w =
     write_summary env out obj w"
  by (simp add: bind_def with_open_def open_w_def file_write_def ret_def log_def os_path_isdir_def
      write_summary_def Let_def split: option.splits sum.splits)

lemma bind_print: "bind (print l) f w = f () (w\<lparr>trace := trace w @ [Print l]\<rparr>)"
  by (simp add: bind_def print_def log_def)

lemma bind_isfile:
  "bind (os_path_isfile p) f w = f (files (fs w) p \<noteq> None) (w\<lparr>trace := trace w @ [IsFile p]\<rparr>)"
  by (simp add: bind_def os_path_isfile_def log_def)

lemma bind_cuda:
  "bind (torch_cuda_is_available env) f w = f (cuda_is_available env) (w\<lparr>trace := trace w @ [CudaProbe]\<rparr>)"
  by (simp add: bind_def torch_cuda_is_available_def log_def)

lemma bind_now:
  "bind (datetime_now env) f w = f (clock env) (w\<lparr>trace := trace w @ [Now]\<rparr>)"
  by (simp add: bind_def datetime_now_def log_def)

lemma bind_pipeline:
  "bind (pipeline env a) f w =
     (case pipeline_load env a of
        Some e \<Rightarrow> (Inl e, w\<lparr>trace := trace w @ [PipelineNew a]\<rparr>)
      | None \<Rightarrow> f a (w\<lparr>trace := trace w @ [PipelineNew a]\<rparr>))"
  by (simp add: bind_def pipeline_def log_def split: option.splits)

lemma bind_pipe_call:
  "bind (pipe_call env a p) f w =
     (case pipeline_run env a p of
        Inl e \<Rightarrow> (Inl e, w\<lparr>trace := trace w @ [PipelineCall a p]\<rparr>)
      | Inr r \<Rightarrow> f r (w\<lparr>trace := trace w @ [PipelineCall a p]\<rparr>))"
  by (simp add: bind_def pipe_call_def log_def split: sum.splits)

lemma bind_getitem:
  "bind (getitem obj k) f w = (case subscript obj k of Inl e \<Rightarrow> (Inl e, w) | Inr v \<Rightarrow> f v w)"
  by (simp add: bind_def getitem_def split: sum.splits)

lemma bind_makedirs:
  "bind (os_makedirs env name) f w =
     (case mkdir_error env (fs w) name of
        Some e \<Rightarrow> (Inl e, w\<lparr>trace := trace w @ [Makedirs name]\<rparr>)
      | None \<Rightarrow> f () (w\<lparr>fs := (fs w)\<lparr>dirs := insert name (dirs (fs w))\<rparr>,
                         trace := trace w @ [Makedirs name]\<rparr>))"
  by (simp add: bind_def os_makedirs_eq split: option.splits)

lemma if_apply: "(if c then f else g) x = (if c then f x else g x)"
  by simp

lemma process_hindi_audio_summary: "process_hindi_audio env p w = run_summary env p w"
  unfolding process_hindi_audio_def
  apply (simp only: bind_isfile bind_print bind_makedirs bind_cuda bind_pipeline bind_pipe_call
      bind_getitem bind_now Let_def write_stage join_out if_apply)
  apply (simp add: raise_def run_summary_def steps_def asr_args_def selected_device_def out_path_def
      Let_def cong: option.case_cong sum.case_cong if_cong)
  done

lemma main_parsed:
  "parse_args (isdecimal env) argv = Parsed p \<Longrightarrow>
   main env argv w =
     (case run_summary env p w of
        (Inr output_path, w1) \<Rightarrow>
          (Returned, w1\<lparr>trace := trace w1 @ [Print (check_mark # ascii '' Transcription saved to: '' @ output_path)]\<rparr>)
      | (Inl e, w1) \<Rightarrow>
          if is_FileNotFoundError (exn_cls e)
          then (SysExit 1, w1\<lparr>trace := trace w1 @ [Print (ascii ''Error: '' @ exn_str e)]\<rparr>)
          else if is_Exception (exn_cls e)
          then (SysExit 1, w1\<lparr>trace := trace w1 @ [Print (ascii ''An error occurred during transcription: '' @ exn_str e)]\<rparr>)
          else (Uncaught e, w1))"
  by (simp add: main_def process_hindi_audio_summary log_def split: prod.splits sum.splits)

lemma exit_code_parsed:
  assumes "parse_args (isdecimal env) argv = Parsed p"
    and "run_summary env p w = (r, w')"
  shows "fst (main env argv w) =
     (case r of
        Inr _ \<Rightarrow> Returned
      | Inl e \<Rightarrow> if is_FileNotFoundError (exn_cls e) \<or> is_Exception (exn_cls e) then SysExit 1
                 else Uncaught e)"
  using assms by (auto simp: main_parsed split: sum.splits)

subsection \<open>How far a run gets\<close>

text \<open>The eight ways in which \<open>process_hindi_audio\<close> ends, each with the world it leaves.\<close>

lemma run_cases [case_names not_found mkdir_failed load_failed run_failed no_text open_failed write_failed written]:
  obtains
    (not_found)
      "files (fs w) p = None"
      "run_summary env p w =
         (Inl (Exn FileNotFoundError (ascii ''The file '' @ sq @ p @ sq @ ascii '' does not exist.'')),
          w\<lparr>trace := trace w @ take 1 (steps env p)\<rparr>)"
  | (mkdir_failed) e where
      "files (fs w) p \<noteq> None"
      "mkdir_error env (fs w) (ascii ''transcribed'') = Some e"
      "run_summary env p w = (Inl e, w\<lparr>trace := trace w @ take 2 (steps env p)\<rparr>)"
  | (load_failed) e where
      "files (fs w) p \<noteq> None"
      "mkdir_error env (fs w) (ascii ''transcribed'') = None"
      "pipeline_load env (asr_args env) = Some e"
      "run_summary env p w =
         (Inl e, w\<lparr>fs := (fs w)\<lparr>dirs := insert (ascii ''transcribed'') (dirs (fs w))\<rparr>,
                   trace := trace w @ take 7 (steps env p)\<rparr>)"
  | (run_failed) e where
      "files (fs w) p \<noteq> None"
      "mkdir_error env (fs w) (ascii ''transcribed'') = None"
      "pipeline_load env (asr_args env) = None"
      "pipeline_run env (asr_args env) p = Inl e"
      "run_summary env p w =
         (Inl e, w\<lparr>fs := (fs w)\<lparr>dirs := insert (ascii ''transcribed'') (dirs (fs w))\<rparr>,
                   trace := trace w @ take 9 (steps env p)\<rparr>)"
  | (no_text) result e where
      "files (fs w) p \<noteq> None"
      "mkdir_error env (fs w) (ascii ''transcribed'') = None"
      "pipeline_load env (asr_args env) = None"
      "pipeline_run env (asr_args env) p = Inr result"
      "subscript result (ascii ''text'') = Inl e"
      "run_summary env p w =
         (Inl e, w\<lparr>fs := (fs w)\<lparr>dirs := insert (ascii ''transcribed'') (dirs (fs w))\<rparr>,
                   trace := trace w @ take 9 (steps env p)\<rparr>)"
  | (open_failed) result obj e where
      "files (fs w) p \<noteq> None"
      "mkdir_error env (fs w) (ascii ''transcribed'') = None"
      "pipeline_load env (asr_args env) = None"
      "pipeline_run env (asr_args env) p = Inr result"
      "subscript result (ascii ''text'') = Inr obj"
      "out_path env p \<in> insert (ascii ''transcribed'') (dirs (fs w))
         \<or> os_fault env (OpOpen (out_path env p)) = Some e"
      "run_summary env p w =
         (Inl e, w\<lparr>fs := (fs w)\<lparr>dirs := insert (ascii ''transcribed'') (dirs (fs w))\<rparr>,
                   trace := trace w @ take 11 (steps env p)\<rparr>)"
  | (write_failed) result obj e where
      "files (fs w) p \<noteq> None"
      "mkdir_error env (fs w) (ascii ''transcribed'') = None"
      "pipeline_load env (asr_args env) = None"
      "pipeline_run env (asr_args env) p = Inr result"
      "subscript result (ascii ''text'') = Inr obj"
      "out_path env p \<notin> insert (ascii ''transcribed'') (dirs (fs w))"
      "os_fault env (OpOpen (out_path env p)) = None"
      "write_bytes obj = Inl e \<or> os_fault env (OpWrite (out_path env p)) = Some e"
      "run_summary env p w =
         (Inl e, w\<lparr>fs := (fs w)\<lparr>dirs := insert (ascii ''transcribed'') (dirs (fs w)),
                                 files := (files (fs w))(out_path env p \<mapsto> [])\<rparr>,
                   trace := trace w @ steps env p\<rparr>)"
  | (written) result obj bytes where
      "files (fs w) p \<noteq> None"
      "mkdir_error env (fs w) (ascii ''transcribed'') = None"
      "pipeline_load env (asr_args env) = None"
      "pipeline_run env (asr_args env) p = Inr result"
      "subscript result (ascii ''text'') = Inr obj"
      "out_path env p \<notin> insert (ascii ''transcribed'') (dirs (fs w))"
      "os_fault env (OpOpen (out_path env p)) = None"
      "write_bytes obj = Inr bytes"
      "os_fault env (OpWrite (out_path env p)) = None"
      "run_summary env p w =
         (Inr (out_path env p),
          w\<lparr>fs := (fs w)\<lparr>dirs := insert (ascii ''transcribed'') (dirs (fs w)),
                        files := (files (fs w))(out_path env p \<mapsto> bytes)\<rparr>,
            trace := trace w @ steps env p\<rparr>)"
proof (cases "files (fs w) p = None")
  case True
  then have "run_summary env p w =
         (Inl (Exn FileNotFoundError (ascii ''The file '' @ sq @ p @ sq @ ascii '' does not exist.'')),
          w\<lparr>trace := trace w @ take 1 (steps env p)\<rparr>)"
    by (simp add: run_summary_def del: not_None_eq)
  with True show ?thesis by (rule not_found)
next
  case ex: False
  show ?thesis
  proof (cases "mkdir_error env (fs w) (ascii ''transcribed'')")
    case (Some e)
    with ex have "run_summary env p w = (Inl e, w\<lparr>trace := trace w @ take 2 (steps env p)\<rparr>)"
      by (simp add: run_summary_def del: not_None_eq)
    with ex Some show ?thesis by (rule mkdir_failed)
  next
    case mk: None
    show ?thesis
    proof (cases "pipeline_load env (asr_args env)")
      case (Some e)
      with ex mk have "run_summary env p w =
         (Inl e, w\<lparr>fs := (fs w)\<lparr>dirs := insert (ascii ''transcribed'') (dirs (fs w))\<rparr>,
                   trace := trace w @ take 7 (steps env p)\<rparr>)"
        by (simp add: run_summary_def del: not_None_eq)
      with ex mk Some show ?thesis by (rule load_failed)
    next
      case ld: None
      show ?thesis
      proof (cases "pipeline_run env (asr_args env) p")
        case (Inl e)
        with ex mk ld have "run_summary env p w =
           (Inl e, w\<lparr>fs := (fs w)\<lparr>dirs := insert (ascii ''transcribed'') (dirs (fs w))\<rparr>,
                     trace := trace w @ take 9 (steps env p)\<rparr>)"
          by (simp add: run_summary_def del: not_None_eq)
        with ex mk ld Inl show ?thesis by (rule run_failed)
      next
        case rn: (Inr result)
        show ?thesis
        proof (cases "subscript result (ascii ''text'')")
          case (Inl e)
          with ex mk ld rn have "run_summary env p w =
             (Inl e, w\<lparr>fs := (fs w)\<lparr>dirs := insert (ascii ''transcribed'') (dirs (fs w))\<rparr>,
                       trace := trace w @ take 9 (steps env p)\<rparr>)"
            by (simp add: run_summary_def del: not_None_eq)
          with ex mk ld rn Inl show ?thesis by (rule no_text)
        next
          case sb: (Inr obj)
          have rs: "run_summary env p w =
              write_summary env (out_path env p) obj
                (w\<lparr>fs := (fs w)\<lparr>dirs := insert (ascii ''transcribed'') (dirs (fs w))\<rparr>,
                   trace := trace w @ take 10 (steps env p)\<rparr>)"
            using ex mk ld rn sb by (simp add: run_summary_def del: not_None_eq)
          have t11: "take 10 (steps env p) @ [OpenW (out_path env p) (ascii ''utf-8'')] = take 11 (steps env p)"
            by (simp add: steps_def)
          have t13: "take 10 (steps env p) @ [OpenW (out_path env p) (ascii ''utf-8''), WriteF (out_path env p),
                 CloseF (out_path env p)] = steps env p"
            by (simp add: steps_def)
          show ?thesis
          proof (cases "out_path env p \<in> insert (ascii ''transcribed'') (dirs (fs w))")
            case True
            then have "run_summary env p w =
               (Inl (Exn IsADirectoryError (ascii ''[Errno 21] Is a directory: '' @ sq @ out_path env p @ sq)),
                w\<lparr>fs := (fs w)\<lparr>dirs := insert (ascii ''transcribed'') (dirs (fs w))\<rparr>,
                  trace := trace w @ take 11 (steps env p)\<rparr>)"
              using t11 by (simp add: rs write_summary_def)
            with ex mk ld rn sb True show ?thesis
              using open_failed by blast
          next
            case nd: False
            show ?thesis
            proof (cases "os_fault env (OpOpen (out_path env p))")
              case (Some e)
              then have "run_summary env p w =
                 (Inl e, w\<lparr>fs := (fs w)\<lparr>dirs := insert (ascii ''transcribed'') (dirs (fs w))\<rparr>,
                           trace := trace w @ take 11 (steps env p)\<rparr>)"
                using nd t11 by (simp add: rs write_summary_def)
              with ex mk ld rn sb Some show ?thesis
                using open_failed by blast
            next
              case op: None
              show ?thesis
              proof (cases "write_bytes obj")
                case (Inl e)
                then have "run_summary env p w =
                   (Inl e, w\<lparr>fs := (fs w)\<lparr>dirs := insert (ascii ''transcribed'') (dirs (fs w)),
                                           files := (files (fs w))(out_path env p \<mapsto> [])\<rparr>,
                             trace := trace w @ steps env p\<rparr>)"
                  using nd op t13 by (simp add: rs write_summary_def)
                with ex mk ld rn sb nd op Inl show ?thesis
                  using write_failed by blast
              next
                case wb: (Inr bytes)
                show ?thesis
                proof (cases "os_fault env (OpWrite (out_path env p))")
                  case (Some e)
                  then have "run_summary env p w =
                     (Inl e, w\<lparr>fs := (fs w)\<lparr>dirs := insert (ascii ''transcribed'') (dirs (fs w)),
                                             files := (files (fs w))(out_path env p \<mapsto> [])\<rparr>,
                               trace := trace w @ steps env p\<rparr>)"
                    using nd op wb t13 by (simp add: rs write_summary_def)
                  with ex mk ld rn sb nd op Some show ?thesis
                    using write_failed by blast
                next
                  case None
                  then have "run_summary env p w =
                     (Inr (out_path env p),
                      w\<lparr>fs := (fs w)\<lparr>dirs := insert (ascii ''transcribed'') (dirs (fs w)),
                                    files := (files (fs w))(out_path env p \<mapsto> bytes)\<rparr>,
                        trace := trace w @ steps env p\<rparr>)"
                    using nd op wb t13 by (simp add: rs write_summary_def)
                  with ex mk ld rn sb nd op wb None show ?thesis
                    by (rule written)
                qed
              qed
            qed
          qed
        qed
      qed
    qed
  qed
qed

subsection \<open>The events of a run\<close>

text \<open>The events of a run are the calls of \<open>process_hindi_audio\<close>, then the report of \<open>main\<close>.\<close>

lemma report_prints: "ev \<in> set (report r) \<Longrightarrow> is_print ev"
  by (auto simp: report_def is_print_def split: sum.splits if_splits)

lemma filter_report:
  "(\<And>ev. is_print ev \<Longrightarrow> \<not> P ev) \<Longrightarrow> filter P (report r) = []"
  by (auto simp: filter_empty_conv dest: report_prints)

lemma run_events_parsed:
  assumes "parse_args (isdecimal env) argv = Parsed p"
    and "run_summary env p w = (r, w')"
    and "trace w' = trace w @ evs"
  shows "run_events env argv w = evs @ report r"
  using assms by (auto simp: run_events_def main_parsed report_def split: sum.splits)

lemma fs_parsed:
  assumes "parse_args (isdecimal env) argv = Parsed p"
    and "run_summary env p w = (r, w')"
  shows "fs (snd (main env argv w)) = fs w'"
  using assms by (auto simp: main_parsed split: sum.splits)

lemma not_print [simp]:
  "\<not> is_print (PipelineCall a q)" "\<not> is_print (PipelineNew a)" "\<not> is_print CudaProbe"
  "\<not> is_print (IsFile p)" "\<not> is_print (Makedirs p)" "\<not> is_print Now"
  "\<not> is_print (OpenW p e)" "\<not> is_print (WriteF p)" "\<not> is_print (CloseF p)"
  by (simp_all add: is_print_def)

lemma reach_call:
  assumes parsed: "parse_args (isdecimal env) argv = Parsed p"
    and reached: "PipelineCall a q \<in> set (run_events env argv w)"
  shows "a = asr_args env \<and> q = p \<and> files (fs w) p \<noteq> None
       \<and> mkdir_error env (fs w) (ascii ''transcribed'') = None
       \<and> pipeline_load env (asr_args env) = None"
proof -
  have np: "\<And>r. PipelineCall a q \<notin> set (report r)"
    using report_prints by fastforce
  show ?thesis
  proof (cases rule: run_cases [of w p env])
    case not_found
    from run_events_parsed [OF parsed not_found(2)] reached np show ?thesis
      by (simp add: steps_def)
  next
    case (mkdir_failed e)
    from run_events_parsed [OF parsed mkdir_failed(3)] reached np show ?thesis
      by (simp add: steps_def)
  next
    case (load_failed e)
    from run_events_parsed [OF parsed load_failed(4)] reached np show ?thesis
      by (simp add: steps_def)
  next
    case (run_failed e)
    from run_events_parsed [OF parsed run_failed(5)] reached np run_failed(1-3) show ?thesis
      by (simp add: steps_def del: not_None_eq)
  next
    case (no_text result e)
    from run_events_parsed [OF parsed no_text(6)] reached np no_text(1-3) show ?thesis
      by (simp add: steps_def del: not_None_eq)
  next
    case (open_failed result obj e)
    from run_events_parsed [OF parsed open_failed(7)] reached np open_failed(1-3) show ?thesis
      by (simp add: steps_def del: not_None_eq)
  next
    case (write_failed result obj e)
    from run_events_parsed [OF parsed write_failed(9)] reached np write_failed(1-3) show ?thesis
      by (simp add: steps_def del: not_None_eq)
  next
    case (written result obj bytes)
    from run_events_parsed [OF parsed written(10)] reached np written(1-3) show ?thesis
      by (simp add: steps_def del: not_None_eq)
  qed
qed


lemma probe_reached:
  assumes parsed: "parse_args (isdecimal env) argv = Parsed p"
    and ex: "files (fs w) p \<noteq> None"
    and mk: "mkdir_error env (fs w) (ascii ''transcribed'') = None"
  shows "CudaProbe \<in> set (run_events env argv w)"
proof (cases rule: run_cases [of w p env])
  case not_found
  with ex show ?thesis by simp
next
  case (mkdir_failed e)
  with mk show ?thesis by simp
next
  case (load_failed e)
  from run_events_parsed [OF parsed load_failed(4)] show ?thesis by (simp add: steps_def)
next
  case (run_failed e)
  from run_events_parsed [OF parsed run_failed(5)] show ?thesis by (simp add: steps_def)
next
  case (no_text result e)
  from run_events_parsed [OF parsed no_text(6)] show ?thesis by (simp add: steps_def)
next
  case (open_failed result obj e)
  from run_events_parsed [OF parsed open_failed(7)] show ?thesis by (simp add: steps_def)
next
  case (write_failed result obj e)
  from run_events_parsed [OF parsed write_failed(9)] show ?thesis by (simp add: steps_def)
next
  case (written result obj bytes)
  from run_events_parsed [OF parsed written(10)] show ?thesis by (simp add: steps_def)
qed

lemma call_reached:
  assumes parsed: "parse_args (isdecimal env) argv = Parsed p"
    and ex: "files (fs w) p \<noteq> None"
    and mk: "mkdir_error env (fs w) (ascii ''transcribed'') = None"
    and ld: "pipeline_load env (asr_args env) = None"
  shows "PipelineCall (asr_args env) p \<in> set (run_events env argv w)"
proof (cases rule: run_cases [of w p env])
  case not_found
  with ex show ?thesis by simp
next
  case (mkdir_failed e)
  with mk show ?thesis by simp
next
  case (load_failed e)
  with ld show ?thesis by simp
next
  case (run_failed e)
  from run_events_parsed [OF parsed run_failed(5)] show ?thesis by (simp add: steps_def)
next
  case (no_text result e)
  from run_events_parsed [OF parsed no_text(6)] show ?thesis by (simp add: steps_def)
next
  case (open_failed result obj e)
  from run_events_parsed [OF parsed open_failed(7)] show ?thesis by (simp add: steps_def)
next
  case (write_failed result obj e)
  from run_events_parsed [OF parsed write_failed(9)] show ?thesis by (simp add: steps_def)
next
  case (written result obj bytes)
  from run_events_parsed [OF parsed written(10)] show ?thesis by (simp add: steps_def)
qed

subsection \<open>The directory\<close>

lemma makedirs_existing:
  "name \<in> dirs (fs w) \<Longrightarrow> os_makedirs env name w = (Inr (), log (Makedirs name) w)"
  by (simp add: os_makedirs_eq mkdir_error_def log_def insert_absorb)

lemma mkdir_error_existing: "name \<in> dirs fsys \<Longrightarrow> mkdir_error env fsys name = None"
  by (simp add: mkdir_error_def)

lemma main_keeps_dirs:
  assumes "d \<in> dirs (fs w)"
  shows "d \<in> dirs (fs (snd (main env argv w)))"
proof (cases "parse_args (isdecimal env) argv")
  case (Parsed p)
  show ?thesis
  proof (cases rule: run_cases [of w p env])
    case not_found
    from fs_parsed [OF Parsed not_found(2)] assms show ?thesis by simp
  next
    case (mkdir_failed e)
    from fs_parsed [OF Parsed mkdir_failed(3)] assms show ?thesis by simp
  next
    case (load_failed e)
    from fs_parsed [OF Parsed load_failed(4)] assms show ?thesis by simp
  next
    case (run_failed e)
    from fs_parsed [OF Parsed run_failed(5)] assms show ?thesis by simp
  next
    case (no_text result e)
    from fs_parsed [OF Parsed no_text(6)] assms show ?thesis by simp
  next
    case (open_failed result obj e)
    from fs_parsed [OF Parsed open_failed(7)] assms show ?thesis by simp
  next
    case (write_failed result obj e)
    from fs_parsed [OF Parsed write_failed(9)] assms show ?thesis by simp
  next
    case (written result obj bytes)
    from fs_parsed [OF Parsed written(10)] assms show ?thesis by simp
  qed
next
  case ParseHelp
  with assms show ?thesis by (simp add: main_def log_def)
next
  case (ParseError e)
  with assms show ?thesis by (simp add: main_def log_def)
qed

lemma main_keeps_files:
  assumes "files (fs w) q \<noteq> None"
  shows "files (fs (snd (main env argv w))) q \<noteq> None"
proof (cases "parse_args (isdecimal env) argv")
  case (Parsed p)
  show ?thesis
  proof (cases rule: run_cases [of w p env])
    case not_found
    from fs_parsed [OF Parsed not_found(2)] assms show ?thesis by simp
  next
    case (mkdir_failed e)
    from fs_parsed [OF Parsed mkdir_failed(3)] assms show ?thesis by simp
  next
    case (load_failed e)
    from fs_parsed [OF Parsed load_failed(4)] assms show ?thesis by simp
  next
    case (run_failed e)
    from fs_parsed [OF Parsed run_failed(5)] assms show ?thesis by simp
  next
    case (no_text result e)
    from fs_parsed [OF Parsed no_text(6)] assms show ?thesis by simp
  next
    case (open_failed result obj e)
    from fs_parsed [OF Parsed open_failed(7)] assms show ?thesis by simp
  next
    case (write_failed result obj e)
    from fs_parsed [OF Parsed write_failed(9)] assms show ?thesis by simp
  next
    case (written result obj bytes)
    from fs_parsed [OF Parsed written(10)] assms show ?thesis by simp
  qed
next
  case ParseHelp
  with assms show ?thesis by (simp add: main_def log_def)
next
  case (ParseError e)
  with assms show ?thesis by (simp add: main_def log_def)
qed

lemma probe_creates_dir:
  assumes parsed: "parse_args (isdecimal env) argv = Parsed p"
    and reached: "CudaProbe \<in> set (run_events env argv w)"
  shows "ascii ''transcribed'' \<in> dirs (fs (snd (main env argv w)))"
proof -
  have np: "\<And>r. CudaProbe \<notin> set (report r)"
    using report_prints by fastforce
  show ?thesis
  proof (cases rule: run_cases [of w p env])
    case not_found
    from run_events_parsed [OF parsed not_found(2)] reached np show ?thesis
      by (simp add: steps_def)
  next
    case (mkdir_failed e)
    from run_events_parsed [OF parsed mkdir_failed(3)] reached np show ?thesis
      by (simp add: steps_def)
  next
    case (load_failed e)
    from fs_parsed [OF parsed load_failed(4)] show ?thesis by simp
  next
    case (run_failed e)
    from fs_parsed [OF parsed run_failed(5)] show ?thesis by simp
  next
    case (no_text result e)
    from fs_parsed [OF parsed no_text(6)] show ?thesis by simp
  next
    case (open_failed result obj e)
    from fs_parsed [OF parsed open_failed(7)] show ?thesis by simp
  next
    case (write_failed result obj e)
    from fs_parsed [OF parsed write_failed(9)] show ?thesis by simp
  next
    case (written result obj bytes)
    from fs_parsed [OF parsed written(10)] show ?thesis by simp
  qed
qed

subsection \<open>The timestamp\<close>

lemma show_nat_digit: "n < 10 \<Longrightarrow> show_nat n = [48 + n]"
  by (simp add: show_nat.simps)

lemma show_nat_step: "10 \<le> n \<Longrightarrow> show_nat n = show_nat (n div 10) @ [48 + n mod 10]"
  by (subst show_nat.simps) simp





subsection \<open>The argument parser\<close>

text \<open>No abbreviation is ambiguous for this parser, so \<open>parse_args\<close> is its loop.\<close>

lemma tuples_are_help: "t \<in> set (get_option_tuples s) \<Longrightarrow> \<exists>opt sep ex. t = HelpOpt opt sep ex"
  by (auto simp: get_option_tuples_def option_strings_def split: if_splits prod.splits)

lemma tuples_at_most_one:
  assumes "hd s = dash" and "2 \<le> length s"
  shows "length (get_option_tuples s) \<le> 1"
proof -
  obtain a b rest where s: "s = a # b # rest"
    using assms(2) by (cases s; cases "tl s") auto
  have a: "a = dash"
    using assms(1) by (simp add: s)
  show ?thesis
  proof (cases "b = dash")
    case True
    then show ?thesis
      by (simp add: get_option_tuples_def option_strings_def startswith_def partition_eq_def
          s a ascii_def dash_def equals_def)
  next
    case False
    then show ?thesis
      by (auto simp: get_option_tuples_def option_strings_def startswith_def
          s a ascii_def dash_def)
  qed
qed

lemma never_ambiguous: "parse_optional isd s \<noteq> AmbiguousOpt"
proof (cases "s = [] \<or> hd s \<noteq> dash \<or> s \<in> set option_strings \<or> length s = 1")
  case True
  then show ?thesis by (auto simp: parse_optional_def)
next
  case False
  then have len: "2 \<le> length s" and hd: "hd s = dash"
    by (cases s; cases "tl s"; auto)+
  from tuples_at_most_one [OF hd len]
  have "get_option_tuples s = [] \<or> (\<exists>t. get_option_tuples s = [t])"
    by (cases "get_option_tuples s"; cases "tl (get_option_tuples s)") auto
  moreover have "get_option_tuples s = [t] \<Longrightarrow> t \<noteq> AmbiguousOpt" for t
    using tuples_are_help [of t s] by auto
  ultimately show ?thesis
    using False by (auto simp: parse_optional_def split: prod.splits)
qed

lemma parse_args_loop: "parse_args isd argv = parse_loop isd None [] argv"
proof -
  have "find (\<lambda>s. parse_optional isd s = AmbiguousOpt) (before_dashdash argv) = None"
    by (simp add: find_None_iff never_ambiguous)
  then show ?thesis by (simp add: parse_args_def)
qed

lemma plain_positional: "plain s \<Longrightarrow> parse_optional isd s = Positional"
  by (auto simp: plain_def parse_optional_def)

lemma plain_not_dashdash: "plain s \<Longrightarrow> s \<noteq> ascii ''--''"
  by (auto simp: plain_def ascii_def dash_def)

lemma plain_no_option: "list_all plain args \<Longrightarrow> \<not> has_option isd args"
  by (induction args)
     (auto simp: has_option_def before_dashdash_def plain_positional)

lemma parse_finish_no_help: "parse_finish pos extras rest \<noteq> ParseHelp"
  by (auto simp: parse_finish_def parse_done_def split: option.splits list.splits)

lemma parse_loop_help:
  "parse_loop isd pos extras args = ParseHelp \<Longrightarrow> \<exists>s\<in>set args. is_help_option isd s"
proof (induction args arbitrary: pos extras)
  case Nil
  then show ?case by (simp add: parse_finish_no_help)
next
  case (Cons s rest)
  show ?case
  proof (cases "has_option isd (s # rest)")
    case False
    with Cons.prems show ?thesis by (simp add: parse_finish_no_help)
  next
    case True
    show ?thesis
    proof (cases "parse_optional isd s")
      case Positional
      with True Cons.prems have "\<exists>pos' extras'. parse_loop isd pos' extras' rest = ParseHelp"
        by (auto split: option.splits)
      with Cons.IH show ?thesis by auto
    next
      case UnknownOpt
      with True Cons.prems have "parse_loop isd pos (extras @ [s]) rest = ParseHelp"
        by simp
      with Cons.IH show ?thesis by auto
    next
      case AmbiguousOpt
      with True Cons.prems show ?thesis by simp
    next
      case (HelpOpt opt sep ex)
      then show ?thesis by (simp add: is_help_option_def)
    qed
  qed
qed

lemma extras_not_parsed: "extras \<noteq> [] \<Longrightarrow> parse_loop isd pos extras args \<noteq> Parsed p"
proof (induction args arbitrary: pos extras)
  case Nil
  then show ?case
    by (auto simp: parse_finish_def parse_done_def split: option.splits)
next
  case (Cons s rest)
  have fin: "parse_finish pos extras (s # rest) \<noteq> Parsed p"
    using Cons.prems
    by (auto simp: parse_finish_def parse_done_def split: option.splits list.splits)
  show ?case
  proof (cases "has_option isd (s # rest)")
    case False
    with fin show ?thesis by simp
  next
    case True
    then show ?thesis
      using Cons.IH [of extras] Cons.IH [of "extras @ [s]"] Cons.prems
      by (auto split: arg_class.splits option.splits)
  qed
qed

lemma option_not_parsed: "has_option isd args \<Longrightarrow> parse_loop isd pos extras args \<noteq> Parsed p"
proof (induction args arbitrary: pos extras)
  case Nil
  then show ?case by (simp add: has_option_def before_dashdash_def)
next
  case (Cons s rest)
  show ?case
  proof (cases "parse_optional isd s")
    case Positional
    have "s \<noteq> ascii ''--''"
      using Cons.prems by (auto simp: has_option_def before_dashdash_def)
    with Positional Cons.prems have "has_option isd rest"
      by (simp add: has_option_def before_dashdash_def)
    with Cons.IH Positional Cons.prems show ?thesis
      by (auto split: option.splits)
  next
    case UnknownOpt
    with Cons.prems show ?thesis by (simp add: extras_not_parsed)
  next
    case AmbiguousOpt
    with Cons.prems show ?thesis by simp
  next
    case (HelpOpt opt sep ex)
    with Cons.prems show ?thesis by (simp split: option.splits)
  qed
qed

lemma parsed_shape:
  assumes "parse_args isd argv = Parsed p"
  shows "argv = [p] \<or> argv = [ascii ''--'', p] \<or> argv = [p, ascii ''--'']"
proof -
  have no: "\<not> has_option isd argv"
    using assms option_not_parsed [of isd argv None "[]" p] by (auto simp: parse_args_loop)
  then have "parse_finish None [] argv = Parsed p"
    using assms by (cases argv) (simp_all add: parse_args_loop)
  then show ?thesis
    by (auto simp: parse_finish_def parse_done_def split: list.splits if_splits)
qed

lemma parse_nothing: "parse_args isd [] = ParseError RequiredMissing"
  by (simp add: parse_args_loop parse_finish_def)

lemma parse_too_many:
  assumes "2 \<le> length argv" and "list_all plain argv"
  shows "parse_args isd argv = ParseError (Unrecognized (tl argv))"
proof -
  obtain a b rest where argv: "argv = a # b # rest"
    using assms(1) by (cases argv; cases "tl argv") auto
  have "\<not> has_option isd argv"
    by (rule plain_no_option [OF assms(2)])
  moreover have "b \<noteq> ascii ''--''" "a \<noteq> ascii ''--''"
    using assms(2) by (simp_all add: argv plain_not_dashdash)
  ultimately show ?thesis
    by (simp add: parse_args_loop argv parse_finish_def parse_done_def)
qed

lemma parse_single:
  assumes "s \<noteq> []" and "hd s \<noteq> dash"
  shows "parse_args isd [s] = Parsed s"
proof -
  have po: "parse_optional isd s = Positional"
    using assms by (simp add: parse_optional_def)
  have nd: "s \<noteq> ascii ''--''"
    using assms by (auto simp: ascii_def dash_def)
  show ?thesis
    using po nd
    by (simp add: parse_args_loop has_option_def before_dashdash_def parse_finish_def parse_done_def)
qed

lemma help_flag: "parse_optional isd (ascii ''-h'') = HelpOpt (ascii ''-h'') None None"
  by (simp add: parse_optional_def option_strings_def ascii_def dash_def)

lemma parse_help_flag: "parse_args isd [ascii ''-h''] = ParseHelp"
proof -
  have "has_option isd [ascii ''-h'']"
    by (simp add: has_option_def before_dashdash_def help_flag) (simp add: ascii_def)
  then show ?thesis
    by (simp add: parse_args_loop help_flag)
qed

subsection \<open>The scenarios, evaluated\<close>

lemma speech_parsed: "parse_args isd [ascii ''speech.wav''] = Parsed (ascii ''speech.wav'')"
  by (rule parse_single) (simp_all add: ascii_def dash_def)

lemma stem_speech: "path_stem (ascii ''speech.wav'') = ascii ''speech''"
  by (simp add: path_stem_def path_name_def path_parts_def ascii_def slash_def dot_def)

lemma stamp_scenario: "strftime (clock (env_with l r)) = ascii ''20240301-101530''"
  apply (simp add: env_with_def strftime_def pad2_def show_nat_digit show_nat_step)
  apply (simp add: ascii_def)
  done

lemma out_speech:
  "out_path (env_with l r) (ascii ''speech.wav'') = ascii ''transcribed/speech-20240301-101530.txt''"
  by (simp only: out_path_def stem_speech stamp_scenario) (simp add: ascii_def)

lemma utf8_namaste: "utf8_encode namaste_duniya =
   Some [224, 164, 168, 224, 164, 174, 224, 164, 184, 224, 165, 141, 224, 164, 164, 224, 165, 135, 32,
         224, 164, 166, 224, 165, 129, 224, 164, 168, 224, 164, 191, 224, 164, 175, 224, 164, 190]"
  by (simp add: namaste_duniya_def utf8_char_def)

lemma speech_exists: "files (fs (world_with ds)) (ascii ''speech.wav'') \<noteq> None"
  by (simp add: world_with_def)

lemma scenario_mkdir: "mkdir_error (env_with l r) (fs (world_with ds)) (ascii ''transcribed'') = None"
  by (simp add: mkdir_error_def env_with_def world_with_def ascii_def)

lemma scenario_env [simp]:
  "pipeline_load (env_with l r) a = l" "pipeline_run (env_with l r) a p = r"
  "os_fault (env_with l r) x = None" "cuda_is_available (env_with l r) = False"
  by (simp_all add: env_with_def)

lemma subscript_text_result [simp]: "subscript (PyDict [(ascii ''text'', v)]) (ascii ''text'') = Inr v"
  by (simp add: subscript_def)

lemma world_with_trace [simp]: "trace (world_with ds) = []"
  by (simp add: world_with_def)

lemma scenario_call:
  "PipelineCall (asr_args (env_with None r)) (ascii ''speech.wav'')
     \<in> set (run_events (env_with None r) [ascii ''speech.wav''] (world_with ds))"
  by (rule call_reached [OF speech_parsed speech_exists scenario_mkdir]) simp

lemma scenario_probe:
  "CudaProbe \<in> set (run_events (env_with l r) [ascii ''speech.wav''] (world_with ds))"
  by (rule probe_reached [OF speech_parsed speech_exists scenario_mkdir])

lemma scenario_to_write:
  "run_summary (env_with None (text_result v)) (ascii ''speech.wav'') (world_with ds) =
     write_summary (env_with None (text_result v)) (ascii ''transcribed/speech-20240301-101530.txt'') v
       ((world_with ds)\<lparr>fs := (fs (world_with ds))\<lparr>dirs := insert (ascii ''transcribed'') ds\<rparr>,
          trace := take 10 (steps (env_with None (text_result v)) (ascii ''speech.wav''))\<rparr>)"
  using speech_exists [of ds] scenario_mkdir [of None "text_result v" ds]
  by (simp add: run_summary_def out_speech text_result_def del: not_None_eq)
     (simp add: world_with_def)


lemma scenario_run_failed:
  "run_summary (env_with None (Inl e)) (ascii ''speech.wav'') (world_with ds) =
     (Inl e, (world_with ds)\<lparr>fs := (fs (world_with ds))\<lparr>dirs := insert (ascii ''transcribed'') ds\<rparr>,
               trace := take 9 (steps (env_with None (Inl e)) (ascii ''speech.wav''))\<rparr>)"
  using speech_exists [of ds] scenario_mkdir [of None "Inl e" ds]
  by (simp add: run_summary_def del: not_None_eq) (simp add: world_with_def)



section \<open>The claims\<close>









text \<open>
  C4, as amended. Execution is strictly linear, in the order of the code: the existence
  check, then the creation of \<open>transcribed\<close>, then the device probe, the construction of the
  pipeline and its call, then the clock, and the opening, writing and closing of the output
  file. The calls of every run are an initial part of this sequence, and a run that succeeds
  makes all of them: the directory is ensured right after validation, before the
  Transcription Runner starts, and the file name is computed and the file written after
  the Runner has produced the text.

  As stated the claim fails: the directory is not created only after the Runner has
  produced the text. When inference raises, no text is ever produced, and the directory
  has been created all the same, as the second call of the run.
\<close>

theorem calls_in_order:
  assumes parsed: "parse_args (isdecimal env) argv = Parsed p"
  shows "prefix (filter (\<lambda>ev. \<not> is_print ev) (run_events env argv w)) (call_order env p)
       \<and> (fst (main env argv w) = Returned
            \<longrightarrow> filter (\<lambda>ev. \<not> is_print ev) (run_events env argv w) = call_order env p)"
proof -
  have fr: "\<And>r. filter (\<lambda>ev. \<not> is_print ev) (report r) = []"
    by (rule filter_report) simp
  show ?thesis
  proof (cases rule: run_cases [of w p env])
    case not_found
    from run_events_parsed [OF parsed not_found(2)] exit_code_parsed [OF parsed not_found(2)] fr
    show ?thesis by (simp add: steps_def call_order_def is_print_def)
  next
    case (mkdir_failed e)
    from run_events_parsed [OF parsed mkdir_failed(3)] exit_code_parsed [OF parsed mkdir_failed(3)] fr
    show ?thesis by (simp add: steps_def call_order_def is_print_def)
  next
    case (load_failed e)
    from run_events_parsed [OF parsed load_failed(4)] exit_code_parsed [OF parsed load_failed(4)] fr
    show ?thesis by (simp add: steps_def call_order_def is_print_def)
  next
    case (run_failed e)
    from run_events_parsed [OF parsed run_failed(5)] exit_code_parsed [OF parsed run_failed(5)] fr
    show ?thesis by (simp add: steps_def call_order_def is_print_def)
  next
    case (no_text result e)
    from run_events_parsed [OF parsed no_text(6)] exit_code_parsed [OF parsed no_text(6)] fr
    show ?thesis by (simp add: steps_def call_order_def is_print_def)
  next
    case (open_failed result obj e)
    from run_events_parsed [OF parsed open_failed(7)] exit_code_parsed [OF parsed open_failed(7)] fr
    show ?thesis by (simp add: steps_def call_order_def is_print_def)
  next
    case (write_failed result obj e)
    from run_events_parsed [OF parsed write_failed(9)] exit_code_parsed [OF parsed write_failed(9)] fr
    show ?thesis by (simp add: steps_def call_order_def is_print_def)
  next
    case (written result obj bytes)
    from run_events_parsed [OF parsed written(10)] exit_code_parsed [OF parsed written(10)] fr
    show ?thesis by (simp add: steps_def call_order_def is_print_def)
  qed
qed

theorem calls_in_order_witness:
  "parse_args (isdecimal (env_with None (text_result (PyStr namaste_duniya)))) [ascii ''speech.wav'']
     = Parsed (ascii ''speech.wav'')
   \<and> fst (main (env_with None (text_result (PyStr namaste_duniya))) [ascii ''speech.wav''] (world_with {})) = Returned
   \<and> filter (\<lambda>ev. \<not> is_print ev)
        (run_events (env_with None (text_result (PyStr namaste_duniya))) [ascii ''speech.wav''] (world_with {}))
       = [IsFile (ascii ''speech.wav''),
          Makedirs (ascii ''transcribed''),
          CudaProbe,
          PipelineNew (asr_args (env_with None (text_result (PyStr namaste_duniya)))),
          PipelineCall (asr_args (env_with None (text_result (PyStr namaste_duniya)))) (ascii ''speech.wav''),
          Now,
          OpenW (ascii ''transcribed/speech-20240301-101530.txt'') (ascii ''utf-8''),
          WriteF (ascii ''transcribed/speech-20240301-101530.txt''),
          CloseF (ascii ''transcribed/speech-20240301-101530.txt'')]"
proof -
  let ?E = "env_with None (text_result (PyStr namaste_duniya))"
  have rs: "run_summary ?E (ascii ''speech.wav'') (world_with {}) =
      (Inr (ascii ''transcribed/speech-20240301-101530.txt''),
       (world_with {})\<lparr>fs := (fs (world_with {}))\<lparr>dirs := {ascii ''transcribed''},
            files := (files (fs (world_with {})))(ascii ''transcribed/speech-20240301-101530.txt'' \<mapsto> the (utf8_encode namaste_duniya))\<rparr>,
          trace := steps ?E (ascii ''speech.wav'')\<rparr>)"
    by (simp add: scenario_to_write write_summary_def write_bytes_def utf8_namaste out_path_not_transcribed [of ?E "ascii ''speech.wav''", unfolded out_speech])
       (simp add: steps_def out_speech)
  have ret: "fst (main ?E [ascii ''speech.wav''] (world_with {})) = Returned"
    using exit_code_parsed [OF speech_parsed rs] by simp
  show ?thesis
    using calls_in_order [where env = ?E and w = "world_with {}", OF speech_parsed] ret speech_parsed
    by (simp add: call_order_def out_speech)
qed

theorem calls_in_order_counterexample:
  "ascii ''transcribed'' \<notin> dirs (fs (world_with {}))
   \<and> pipeline_run (env_with None (Inl (Exn RuntimeError (ascii ''unsupported audio codec''))))
        (asr_args (env_with None (Inl (Exn RuntimeError (ascii ''unsupported audio codec'')))))
        (ascii ''speech.wav'')
       = Inl (Exn RuntimeError (ascii ''unsupported audio codec''))
   \<and> ascii ''transcribed''
       \<in> dirs (fs (snd (main (env_with None (Inl (Exn RuntimeError (ascii ''unsupported audio codec''))))
                          [ascii ''speech.wav''] (world_with {}))))
   \<and> take 2 (run_events (env_with None (Inl (Exn RuntimeError (ascii ''unsupported audio codec''))))
                [ascii ''speech.wav''] (world_with {}))
       = [IsFile (ascii ''speech.wav''), Makedirs (ascii ''transcribed'')]"
proof -
  let ?E = "env_with None (Inl (Exn RuntimeError (ascii ''unsupported audio codec'')))"
  note rs = scenario_run_failed [of "Exn RuntimeError (ascii ''unsupported audio codec'')" "{}"]
  have ev: "run_events ?E [ascii ''speech.wav''] (world_with {}) =
      take 9 (steps ?E (ascii ''speech.wav'')) @ report (Inl (Exn RuntimeError (ascii ''unsupported audio codec'')))"
    by (rule run_events_parsed [OF speech_parsed rs]) simp
  show ?thesis
    using fs_parsed [OF speech_parsed rs] ev
    by (simp add: steps_def) (simp add: world_with_def)
qed

text \<open>
  C5. In every run that reaches transcription (the pipeline is called), the pipeline has
  been constructed exactly once, for the task \<open>automatic-speech-recognition\<close>, with the model
  \<open>vasista22/whisper-hindi-large-v2\<close>, a chunk length of 30 seconds and the selected device, and
  it is called exactly once, on the audio path.
\<close>

theorem pipeline_once:
  assumes parsed: "parse_args (isdecimal env) argv = Parsed p"
    and reached: "PipelineCall a q \<in> set (run_events env argv w)"
  shows "filter is_pipeline_new (run_events env argv w) = [PipelineNew a]
       \<and> filter is_pipeline_call (run_events env argv w) = [PipelineCall a p]
       \<and> task a = ascii ''automatic-speech-recognition''
       \<and> model a = ascii ''vasista22/whisper-hindi-large-v2''
       \<and> chunk_length_s a = 30
       \<and> device a = (if cuda_is_available env then ascii ''cuda'' else ascii ''cpu'')"
proof -
  from reach_call [OF parsed reached]
  have a: "a = asr_args env" and ex: "files (fs w) p \<noteq> None"
    and mk: "mkdir_error env (fs w) (ascii ''transcribed'') = None"
    and ld: "pipeline_load env (asr_args env) = None"
    by simp_all
  have fn: "\<And>r. filter is_pipeline_new (report r) = []"
    by (rule filter_report) (auto simp: is_print_def is_pipeline_new_def split: event.splits)
  have fc: "\<And>r. filter is_pipeline_call (report r) = []"
    by (rule filter_report) (auto simp: is_print_def is_pipeline_call_def split: event.splits)
  have args: "task a = ascii ''automatic-speech-recognition''
       \<and> model a = ascii ''vasista22/whisper-hindi-large-v2''
       \<and> chunk_length_s a = 30
       \<and> device a = (if cuda_is_available env then ascii ''cuda'' else ascii ''cpu'')"
    by (simp add: a asr_args_def selected_device_def)
  have "filter is_pipeline_new (run_events env argv w) = [PipelineNew a]
       \<and> filter is_pipeline_call (run_events env argv w) = [PipelineCall a p]"
  proof (cases rule: run_cases [of w p env])
    case not_found
    with ex show ?thesis by simp
  next
    case (mkdir_failed e)
    with mk show ?thesis by simp
  next
    case (load_failed e)
    with ld show ?thesis by simp
  next
    case (run_failed e)
    from run_events_parsed [OF parsed run_failed(5)] fn fc show ?thesis
      by (simp add: a steps_def is_pipeline_new_def is_pipeline_call_def)
  next
    case (no_text result e)
    from run_events_parsed [OF parsed no_text(6)] fn fc show ?thesis
      by (simp add: a steps_def is_pipeline_new_def is_pipeline_call_def)
  next
    case (open_failed result obj e)
    from run_events_parsed [OF parsed open_failed(7)] fn fc show ?thesis
      by (simp add: a steps_def is_pipeline_new_def is_pipeline_call_def)
  next
    case (write_failed result obj e)
    from run_events_parsed [OF parsed write_failed(9)] fn fc show ?thesis
      by (simp add: a steps_def is_pipeline_new_def is_pipeline_call_def)
  next
    case (written result obj bytes)
    from run_events_parsed [OF parsed written(10)] fn fc show ?thesis
      by (simp add: a steps_def is_pipeline_new_def is_pipeline_call_def)
  qed
  with args show ?thesis by simp
qed

theorem pipeline_once_witness:
  "parse_args (isdecimal (env_with None (text_result (PyStr namaste_duniya)))) [ascii ''speech.wav'']
     = Parsed (ascii ''speech.wav'')
   \<and> PipelineCall (asr_args (env_with None (text_result (PyStr namaste_duniya)))) (ascii ''speech.wav'')
       \<in> set (run_events (env_with None (text_result (PyStr namaste_duniya))) [ascii ''speech.wav''] (world_with {}))
   \<and> filter is_pipeline_new
        (run_events (env_with None (text_result (PyStr namaste_duniya))) [ascii ''speech.wav''] (world_with {}))
       = [PipelineNew \<lparr>task = ascii ''automatic-speech-recognition'',
                       model = ascii ''vasista22/whisper-hindi-large-v2'',
                       chunk_length_s = 30, device = ascii ''cpu''\<rparr>]"
  using pipeline_once [OF speech_parsed scenario_call, of "text_result (PyStr namaste_duniya)" "{}"]
    speech_parsed scenario_call
  by (simp add: asr_args_def selected_device_def)

text \<open>
  C6. In every run that reaches device selection, CUDA availability is probed exactly once;
  the device is \<open>cuda\<close> when the probe says so and \<open>cpu\<close> otherwise, it is the device
  announced, and it is the device the one pipeline is built with.
\<close>

theorem device_probed_once:
  assumes parsed: "parse_args (isdecimal env) argv = Parsed p"
    and reached: "CudaProbe \<in> set (run_events env argv w)"
  shows "filter (\<lambda>ev. ev = CudaProbe) (run_events env argv w) = [CudaProbe]
       \<and> Print (ascii ''Using device: '' @ (if cuda_is_available env then ascii ''cuda'' else ascii ''cpu''))
            \<in> set (run_events env argv w)
       \<and> filter is_pipeline_new (run_events env argv w) =
            [PipelineNew \<lparr>task = ascii ''automatic-speech-recognition'',
                           model = ascii ''vasista22/whisper-hindi-large-v2'',
                           chunk_length_s = 30,
                           device = (if cuda_is_available env then ascii ''cuda'' else ascii ''cpu'')\<rparr>]"
proof -
  have np: "\<And>r. CudaProbe \<notin> set (report r)"
    using report_prints by fastforce
  have fp: "\<And>r. filter (\<lambda>ev. ev = CudaProbe) (report r) = []"
    by (rule filter_report) (auto simp: is_print_def)
  have fn: "\<And>r. filter is_pipeline_new (report r) = []"
    by (rule filter_report) (auto simp: is_print_def is_pipeline_new_def split: event.splits)
  show ?thesis
  proof (cases rule: run_cases [of w p env])
    case not_found
    from run_events_parsed [OF parsed not_found(2)] reached np show ?thesis
      by (simp add: steps_def)
  next
    case (mkdir_failed e)
    from run_events_parsed [OF parsed mkdir_failed(3)] reached np show ?thesis
      by (simp add: steps_def)
  next
    case (load_failed e)
    from run_events_parsed [OF parsed load_failed(4)] fp fn show ?thesis
      by (simp add: steps_def is_pipeline_new_def asr_args_def selected_device_def)
  next
    case (run_failed e)
    from run_events_parsed [OF parsed run_failed(5)] fp fn show ?thesis
      by (simp add: steps_def is_pipeline_new_def asr_args_def selected_device_def)
  next
    case (no_text result e)
    from run_events_parsed [OF parsed no_text(6)] fp fn show ?thesis
      by (simp add: steps_def is_pipeline_new_def asr_args_def selected_device_def)
  next
    case (open_failed result obj e)
    from run_events_parsed [OF parsed open_failed(7)] fp fn show ?thesis
      by (simp add: steps_def is_pipeline_new_def asr_args_def selected_device_def)
  next
    case (write_failed result obj e)
    from run_events_parsed [OF parsed write_failed(9)] fp fn show ?thesis
      by (simp add: steps_def is_pipeline_new_def asr_args_def selected_device_def)
  next
    case (written result obj bytes)
    from run_events_parsed [OF parsed written(10)] fp fn show ?thesis
      by (simp add: steps_def is_pipeline_new_def asr_args_def selected_device_def)
  qed
qed

theorem device_probed_once_witness:
  "parse_args (isdecimal (env_with None (text_result (PyStr namaste_duniya)))) [ascii ''speech.wav'']
     = Parsed (ascii ''speech.wav'')
   \<and> CudaProbe \<in> set (run_events (env_with None (text_result (PyStr namaste_duniya))) [ascii ''speech.wav''] (world_with {}))
   \<and> filter (\<lambda>ev. ev = CudaProbe)
        (run_events (env_with None (text_result (PyStr namaste_duniya))) [ascii ''speech.wav''] (world_with {}))
       = [CudaProbe]
   \<and> Print (ascii ''Using device: cpu'')
       \<in> set (run_events (env_with None (text_result (PyStr namaste_duniya))) [ascii ''speech.wav''] (world_with {}))"
proof -
  have m: "ascii ''Using device: '' @ ascii ''cpu'' = ascii ''Using device: cpu''"
    by (simp add: ascii_def)
  show ?thesis
    using device_probed_once [OF speech_parsed scenario_probe, of None "text_result (PyStr namaste_duniya)" "{}"]
      speech_parsed scenario_probe m
    by simp
qed

text \<open>
  C7. Creating the directory is idempotent. For every file system and whatever the
  operating system would refuse, \<open>os.makedirs(name, exist_ok=True)\<close> on an existing directory
  returns without error and leaves the file system as it is; the script never removes a
  directory; so once a run has got past the creation of \<open>transcribed\<close>, every later run,
  in whatever environment, gets past it too (it reaches the device probe whenever its input
  file exists).
\<close>

theorem makedirs_idempotent:
  "(name \<in> dirs (fs w) \<longrightarrow> os_makedirs env name w = (Inr (), log (Makedirs name) w))
   \<and> (parse_args (isdecimal env1) argv1 = Parsed p1
        \<and> CudaProbe \<in> set (run_events env1 argv1 w0)
        \<and> parse_args (isdecimal env2) argv2 = Parsed p2
        \<and> files (fs (snd (main env1 argv1 w0))) p2 \<noteq> None
      \<longrightarrow> os_makedirs env2 (ascii ''transcribed'') (snd (main env1 argv1 w0))
            = (Inr (), log (Makedirs (ascii ''transcribed'')) (snd (main env1 argv1 w0)))
          \<and> CudaProbe \<in> set (run_events env2 argv2 (snd (main env1 argv1 w0))))"
proof -
  have second: "os_makedirs env2 (ascii ''transcribed'') (snd (main env1 argv1 w0))
            = (Inr (), log (Makedirs (ascii ''transcribed'')) (snd (main env1 argv1 w0)))
          \<and> CudaProbe \<in> set (run_events env2 argv2 (snd (main env1 argv1 w0)))"
    if p1: "parse_args (isdecimal env1) argv1 = Parsed p1"
      and c1: "CudaProbe \<in> set (run_events env1 argv1 w0)"
      and p2: "parse_args (isdecimal env2) argv2 = Parsed p2"
      and ex: "files (fs (snd (main env1 argv1 w0))) p2 \<noteq> None"
  proof -
    have d: "ascii ''transcribed'' \<in> dirs (fs (snd (main env1 argv1 w0)))"
      by (rule probe_creates_dir [OF p1 c1])
    show ?thesis
      using makedirs_existing [OF d] probe_reached [OF p2 ex mkdir_error_existing [OF d]]
      by simp
  qed
  show ?thesis
    using makedirs_existing second by blast
qed

theorem makedirs_idempotent_witness:
  "ascii ''transcribed'' \<in> dirs (fs (world_with {ascii ''transcribed''}))
   \<and> os_makedirs (env_with None (text_result (PyStr namaste_duniya))) (ascii ''transcribed'')
        (world_with {ascii ''transcribed''})
       = (Inr (), log (Makedirs (ascii ''transcribed'')) (world_with {ascii ''transcribed''}))
   \<and> CudaProbe \<in> set (run_events (env_with None (text_result (PyStr namaste_duniya))) [ascii ''speech.wav'']
        (snd (main (env_with None (text_result (PyStr namaste_duniya))) [ascii ''speech.wav''] (world_with {}))))"
proof -
  let ?E = "env_with None (text_result (PyStr namaste_duniya))"
  have d: "ascii ''transcribed'' \<in> dirs (fs (world_with {ascii ''transcribed''}))"
    by (simp add: world_with_def)
  have ex: "files (fs (snd (main ?E [ascii ''speech.wav''] (world_with {})))) (ascii ''speech.wav'') \<noteq> None"
    by (rule main_keeps_files [OF speech_exists])
  show ?thesis
    using makedirs_idempotent [where name = "ascii ''transcribed''" and w = "world_with {ascii ''transcribed''}"
        and env = ?E and ?env1.0 = ?E and ?argv1.0 = "[ascii ''speech.wav'']" and ?p1.0 = "ascii ''speech.wav''"
        and ?w0.0 = "world_with {}" and ?env2.0 = ?E and ?argv2.0 = "[ascii ''speech.wav'']"
        and ?p2.0 = "ascii ''speech.wav''"]
      d ex speech_parsed scenario_probe
    by simp
qed







text \<open>
  C10, as amended. Whenever argument parsing does not yield the one positional argument,
  the process ends inside \<open>parse_args\<close> and \<open>process_hindi_audio\<close> is never called (the run
  consists of the parser's output alone, the file system is untouched): with status 2, after
  the usage line and an error message, or, when a help option (\<open>-h\<close>, \<open>--help\<close>) is among the
  arguments and is acted upon, with status 0 after the help text. Parsing yields a value only
  for a command line of the one argument, with or without a \<open>--\<close> beside it; no argument at
  all, and two or more arguments none of which begins with a dash, end with status 2.

  As stated the claim fails: the command line \<open>-h\<close> supplies no positional argument, and
  the process exits with status 0, not 2.
\<close>

theorem argparse_exits:
  "(parse_args (isdecimal env) argv = ParseError e \<longrightarrow>
      main env argv w = (SysExit 2, w\<lparr>trace := trace w @ [ArgUsage, ArgError e]\<rparr>))
   \<and> (parse_args (isdecimal env) argv = ParseHelp \<longrightarrow>
        main env argv w = (SysExit 0, w\<lparr>trace := trace w @ [ArgHelp]\<rparr>)
        \<and> (\<exists>s\<in>set argv. is_help_option (isdecimal env) s))
   \<and> (parse_args (isdecimal env) argv = Parsed p \<longrightarrow>
        argv = [p] \<or> argv = [ascii ''--'', p] \<or> argv = [p, ascii ''--''])
   \<and> (argv = [] \<longrightarrow> parse_args (isdecimal env) argv = ParseError RequiredMissing)
   \<and> (2 \<le> length argv \<and> list_all plain argv \<longrightarrow>
        parse_args (isdecimal env) argv = ParseError (Unrecognized (tl argv)))"
proof -
  have err: "parse_args (isdecimal env) argv = ParseError e \<Longrightarrow>
      main env argv w = (SysExit 2, w\<lparr>trace := trace w @ [ArgUsage, ArgError e]\<rparr>)"
    by (simp add: main_def log_def)
  have hlp: "parse_args (isdecimal env) argv = ParseHelp \<Longrightarrow>
      main env argv w = (SysExit 0, w\<lparr>trace := trace w @ [ArgHelp]\<rparr>)"
    by (simp add: main_def log_def)
  have opt: "parse_args (isdecimal env) argv = ParseHelp \<Longrightarrow> \<exists>s\<in>set argv. is_help_option (isdecimal env) s"
    by (rule parse_loop_help [of "isdecimal env" None "[]"]) (simp add: parse_args_loop)
  show ?thesis
    using err hlp opt parsed_shape [of "isdecimal env" argv p] parse_nothing [of "isdecimal env"]
      parse_too_many [of argv "isdecimal env"]
    by blast
qed

theorem argparse_exits_witness:
  "parse_args (isdecimal (env_with None (text_result (PyStr namaste_duniya)))) [] = ParseError RequiredMissing
   \<and> main (env_with None (text_result (PyStr namaste_duniya))) [] (world_with {})
       = (SysExit 2, (world_with {})\<lparr>trace := [ArgUsage, ArgError RequiredMissing]\<rparr>)
   \<and> 2 \<le> length [ascii ''speech.wav'', ascii ''other.wav'']
   \<and> list_all plain [ascii ''speech.wav'', ascii ''other.wav'']
   \<and> main (env_with None (text_result (PyStr namaste_duniya))) [ascii ''speech.wav'', ascii ''other.wav''] (world_with {})
       = (SysExit 2, (world_with {})\<lparr>trace := [ArgUsage, ArgError (Unrecognized [ascii ''other.wav''])]\<rparr>)
   \<and> parse_args (isdecimal (env_with None (text_result (PyStr namaste_duniya)))) [ascii ''-h''] = ParseHelp
   \<and> main (env_with None (text_result (PyStr namaste_duniya))) [ascii ''-h''] (world_with {})
       = (SysExit 0, (world_with {})\<lparr>trace := [ArgHelp]\<rparr>)
   \<and> parse_args (isdecimal (env_with None (text_result (PyStr namaste_duniya)))) [ascii ''speech.wav'']
       = Parsed (ascii ''speech.wav'')"
proof -
  let ?E = "env_with None (text_result (PyStr namaste_duniya))"
  have pl: "list_all plain [ascii ''speech.wav'', ascii ''other.wav'']"
    by (simp add: plain_def ascii_def dash_def)
  show ?thesis
    using argparse_exits [of ?E "[]" RequiredMissing "world_with {}"]
      argparse_exits [of ?E "[ascii ''speech.wav'', ascii ''other.wav'']" "Unrecognized [ascii ''other.wav'']" "world_with {}"]
      argparse_exits [of ?E "[ascii ''-h'']" _ "world_with {}"]
      argparse_exits [of ?E "[ascii ''speech.wav'']" _ "world_with {}" "ascii ''speech.wav''"]
      pl parse_help_flag [of "isdecimal ?E"] speech_parsed [of "isdecimal ?E"]
    by simp
qed

theorem argparse_exits_counterexample:
  "parse_optional (isdecimal (env_with None (text_result (PyStr namaste_duniya)))) (ascii ''-h'')
     = HelpOpt (ascii ''-h'') None None
   \<and> parse_args (isdecimal (env_with None (text_result (PyStr namaste_duniya)))) [ascii ''-h''] = ParseHelp
   \<and> exit_code (fst (main (env_with None (text_result (PyStr namaste_duniya))) [ascii ''-h''] (world_with {})))
       = Some 0
   \<and> exit_code (fst (main (env_with None (text_result (PyStr namaste_duniya))) [ascii ''-h''] (world_with {})))
       \<noteq> Some 2"
  by (simp add: help_flag main_def parse_help_flag)

end
